theory Spec2Isabelle
  imports Complex_Main
begin

section \<open>Python strings\<close>

text \<open>
  A Python \<open>str\<close> is modelled as a \<open>string\<close> in which every \<open>char\<close> stands for one
  code point; the model covers the texts whose code points are below 256. On that range
  \<open>str.lower\<close>, \<open>str.isspace\<close> and the classes \<open>\w\<close> and \<open>\s\<close> of the \<open>re\<close> module
  are the following tables.
\<close>

definition py_isspace :: "char \<Rightarrow> bool" where
  "py_isspace c = (of_char c \<in> set [9, 10, 11, 12, 13, 28, 29, 30, 31, 32, 133, 160 :: nat])"

definition py_isword :: "char \<Rightarrow> bool" where
  "py_isword c =
     (let n = (of_char c :: nat) in
        (48 \<le> n \<and> n \<le> 57) \<or> (65 \<le> n \<and> n \<le> 90) \<or> n = 95 \<or> (97 \<le> n \<and> n \<le> 122)
        \<or> n \<in> set [170, 178, 179, 181, 185, 186, 188, 189, 190]
        \<or> (192 \<le> n \<and> n \<le> 214) \<or> (216 \<le> n \<and> n \<le> 246) \<or> 248 \<le> n)"

definition lower_char :: "char \<Rightarrow> char" where
  "lower_char c =
     (let n = (of_char c :: nat) in
        if (65 \<le> n \<and> n \<le> 90) \<or> (192 \<le> n \<and> n \<le> 214) \<or> (216 \<le> n \<and> n \<le> 222)
        then char_of (n + 32) else c)"

definition lower :: "string \<Rightarrow> string" where
  "lower s = map lower_char s"

definition strip :: "string \<Rightarrow> string" where
  "strip s = rev (dropWhile py_isspace (rev (dropWhile py_isspace s)))"

fun startswith :: "string \<Rightarrow> string \<Rightarrow> bool" where
  "startswith s [] = True"
| "startswith [] (p # ps) = False"
| "startswith (c # cs) (p # ps) = (c = p \<and> startswith cs ps)"

text \<open>\<open>sub in s\<close>: the substring test.\<close>

fun contains :: "string \<Rightarrow> string \<Rightarrow> bool" where
  "contains [] sub = (sub = [])"
| "contains (c # cs) sub = (startswith (c # cs) sub \<or> contains cs sub)"

text \<open>\<open>str(n)\<close> of an integer: its decimal digits, with a minus sign below zero.\<close>

definition digit_char :: "nat \<Rightarrow> char" where
  "digit_char d = ''0123456789'' ! d"

fun str_nat :: "nat \<Rightarrow> string" where
  "str_nat n = (if n < 10 then [digit_char n] else str_nat (n div 10) @ [digit_char (n mod 10)])"

declare str_nat.simps [simp del]

definition str_int :: "int \<Rightarrow> string" where
  "str_int i = (if i < 0 then CHR ''-'' # str_nat (nat (- i)) else str_nat (nat i))"

section \<open>The plan and its steps (orchestrator.py)\<close>

record TaskStep =
  step_id :: int
  description :: string
  agent_type :: string
  status :: string
  result :: string
  error :: string
  attempts :: int
  max_attempts :: int
  dependencies :: "string list"

text \<open>The dataclass defaults: a step is created pending, with no attempt made.\<close>

definition new_TaskStep :: "int \<Rightarrow> string \<Rightarrow> string \<Rightarrow> int \<Rightarrow> string list \<Rightarrow> TaskStep" where
  "new_TaskStep i d a m deps =
     \<lparr>step_id = i, description = d, agent_type = a, status = ''pending'', result = '''',
      error = '''', attempts = 0, max_attempts = m, dependencies = deps\<rparr>"

record ExecutionPlan =
  goal :: string
  steps :: "TaskStep list"
  current_step :: int
  completed :: bool
  reflection_log :: "string list"
  start_time :: real

text \<open>
  \<open>next((s for s in self.steps if str(s.id) == str(dep_id)), None)\<close>: the first step
  whose id prints as the dependency id. Dependency ids are strings, so \<open>str(dep_id)\<close> is
  the id itself.
\<close>

definition find_dep_step :: "TaskStep list \<Rightarrow> string \<Rightarrow> TaskStep option" where
  "find_dep_step all_steps dep_id = List.find (\<lambda>s. str_int (step_id s) = dep_id) all_steps"

text \<open>
  The inner loop of \<open>get_next_step\<close>: \<open>deps_met\<close> becomes false at the first dependency
  that names a step of the plan which is not completed.
\<close>

fun deps_met :: "TaskStep list \<Rightarrow> string list \<Rightarrow> bool" where
  "deps_met all_steps [] = True"
| "deps_met all_steps (dep_id # rest) =
     (case find_dep_step all_steps dep_id of
        None \<Rightarrow> deps_met all_steps rest
      | Some dep_step \<Rightarrow> if status dep_step \<noteq> ''completed'' then False
                         else deps_met all_steps rest)"

text \<open>
  The outer loop of \<open>get_next_step\<close>. Python returns a reference to the step object; the
  model returns its position in \<open>plan.steps\<close>, which is what the later in-place updates of
  the step need, and \<open>get_next_step\<close> reads the step at that position.
\<close>

fun scan_steps :: "TaskStep list \<Rightarrow> TaskStep list \<Rightarrow> nat \<Rightarrow> nat option" where
  "scan_steps all_steps [] i = None"
| "scan_steps all_steps (step # rest) i =
     (if status step = ''pending'' \<and> deps_met all_steps (dependencies step) then Some i
      else scan_steps all_steps rest (Suc i))"

definition next_step_index :: "ExecutionPlan \<Rightarrow> nat option" where
  "next_step_index plan = scan_steps (steps plan) (steps plan) 0"

definition get_next_step :: "ExecutionPlan \<Rightarrow> TaskStep option" where
  "get_next_step plan = map_option (\<lambda>i. steps plan ! i) (next_step_index plan)"

fun mark_done_steps :: "TaskStep list \<Rightarrow> int \<Rightarrow> string \<Rightarrow> TaskStep list" where
  "mark_done_steps [] sid res = []"
| "mark_done_steps (step # rest) sid res =
     (if step_id step = sid then step\<lparr>status := ''completed'', result := res\<rparr> # rest
      else step # mark_done_steps rest sid res)"

definition mark_step_done :: "ExecutionPlan \<Rightarrow> int \<Rightarrow> string \<Rightarrow> ExecutionPlan" where
  "mark_step_done plan sid res = plan\<lparr>steps := mark_done_steps (steps plan) sid res\<rparr>"

text \<open>One failure recorded on a step: the body of \<open>mark_step_failed\<close> for the step found.\<close>

definition record_failure :: "TaskStep \<Rightarrow> string \<Rightarrow> TaskStep" where
  "record_failure step err =
     (let step1 = step\<lparr>attempts := attempts step + 1\<rparr>;
          step2 = (if attempts step1 \<ge> max_attempts step1 then step1\<lparr>status := ''failed''\<rparr>
                   else step1\<lparr>status := ''pending''\<rparr>)
      in step2\<lparr>error := err\<rparr>)"

fun mark_failed_steps :: "TaskStep list \<Rightarrow> int \<Rightarrow> string \<Rightarrow> TaskStep list" where
  "mark_failed_steps [] sid err = []"
| "mark_failed_steps (step # rest) sid err =
     (if step_id step = sid then record_failure step err # rest
      else step # mark_failed_steps rest sid err)"

definition mark_step_failed :: "ExecutionPlan \<Rightarrow> int \<Rightarrow> string \<Rightarrow> ExecutionPlan" where
  "mark_step_failed plan sid err = plan\<lparr>steps := mark_failed_steps (steps plan) sid err\<rparr>"

definition is_complete :: "ExecutionPlan \<Rightarrow> bool" where
  "is_complete plan = list_all (\<lambda>s. status s = ''completed'' \<or> status s = ''failed'') (steps plan)"


section \<open>Regular expressions of the \<open>re\<close> module\<close>

text \<open>
  The patterns of the source use literals, \<open>\b\<close>, the classes \<open>\w\<close>, \<open>\s\<close>, \<open>.\<close> and
  bracket sets under \<open>*\<close>, \<open>+\<close> and \<open>?\<close>, and groups of literal alternatives. A pattern is
  the list of its items; \<open>rx_match\<close> is the backtracking matcher anchored at one position
  (greedy quantifiers, alternatives in order), given the character before that position.
  It returns the number of characters each item consumed.
\<close>

datatype cclass = CWord | CSpace | CDot | CSet string | CNotSet string

fun in_class :: "cclass \<Rightarrow> char \<Rightarrow> bool" where
  "in_class CWord c = py_isword c"
| "in_class CSpace c = py_isspace c"
| "in_class CDot c = (c \<noteq> CHR 0x0A)"
| "in_class (CSet cs) c = (c \<in> set cs)"
| "in_class (CNotSet cs) c = (c \<notin> set cs)"

datatype rx = Str string | B | One cclass | Star cclass | Plus cclass | Opt cclass
  | Alt "string list"

definition is_boundary :: "char option \<Rightarrow> string \<Rightarrow> bool" where
  "is_boundary prev s =
     ((case prev of None \<Rightarrow> False | Some c \<Rightarrow> py_isword c)
      \<noteq> (case s of [] \<Rightarrow> False | c # _ \<Rightarrow> py_isword c))"

definition prev_after :: "char option \<Rightarrow> string \<Rightarrow> char option" where
  "prev_after prev u = (if u = [] then prev else Some (last u))"

definition consumed :: "nat \<Rightarrow> nat list option \<Rightarrow> nat list option" where
  "consumed n r = map_option ((#) n) r"

definition one_more :: "nat list option \<Rightarrow> nat list option" where
  "one_more r = (case r of Some (n # ns) \<Rightarrow> Some (Suc n # ns) | _ \<Rightarrow> None)"

fun alt_count :: "rx list \<Rightarrow> nat" where
  "alt_count (Alt as # r) = length as"
| "alt_count r = 0"

function rx_match :: "rx list \<Rightarrow> char option \<Rightarrow> string \<Rightarrow> nat list option" where
  "rx_match [] prev s = Some []"
| "rx_match (Str l # r) prev s =
     (if startswith s l
      then consumed (length l) (rx_match r (prev_after prev l) (drop (length l) s))
      else None)"
| "rx_match (B # r) prev s =
     (if is_boundary prev s then consumed 0 (rx_match r prev s) else None)"
| "rx_match (One cl # r) prev [] = None"
| "rx_match (One cl # r) prev (c # cs) =
     (if in_class cl c then consumed 1 (rx_match r (Some c) cs) else None)"
| "rx_match (Star cl # r) prev [] = consumed 0 (rx_match r prev [])"
| "rx_match (Star cl # r) prev (c # cs) =
     (if in_class cl c
      then (case one_more (rx_match (Star cl # r) (Some c) cs) of
              Some ns \<Rightarrow> Some ns
            | None \<Rightarrow> consumed 0 (rx_match r prev (c # cs)))
      else consumed 0 (rx_match r prev (c # cs)))"
| "rx_match (Plus cl # r) prev [] = None"
| "rx_match (Plus cl # r) prev (c # cs) =
     (if in_class cl c then one_more (rx_match (Star cl # r) (Some c) cs) else None)"
| "rx_match (Opt cl # r) prev [] = consumed 0 (rx_match r prev [])"
| "rx_match (Opt cl # r) prev (c # cs) =
     (if in_class cl c
      then (case consumed 1 (rx_match r (Some c) cs) of
              Some ns \<Rightarrow> Some ns
            | None \<Rightarrow> consumed 0 (rx_match r prev (c # cs)))
      else consumed 0 (rx_match r prev (c # cs)))"
| "rx_match (Alt [] # r) prev s = None"
| "rx_match (Alt (a # as) # r) prev s =
     (if startswith s a
      then (case consumed (length a) (rx_match r (prev_after prev a) (drop (length a) s)) of
              Some ns \<Rightarrow> Some ns
            | None \<Rightarrow> rx_match (Alt as # r) prev s)
      else rx_match (Alt as # r) prev s)"
  by pat_completeness auto
termination
  by (relation "measures [\<lambda>(r, prev, s). length r, \<lambda>(r, prev, s). length s,
                          \<lambda>(r, prev, s). alt_count r]") auto

text \<open>
  \<open>re.search\<close>: the first start position at which the pattern matches, with the lengths
  its items consumed there.
\<close>

fun search_from :: "rx list \<Rightarrow> char option \<Rightarrow> string \<Rightarrow> nat \<Rightarrow> (nat \<times> nat list) option" where
  "search_from r prev [] i = map_option (Pair i) (rx_match r prev [])"
| "search_from r prev (c # cs) i =
     (case rx_match r prev (c # cs) of
        Some ns \<Rightarrow> Some (i, ns)
      | None \<Rightarrow> search_from r (Some c) cs (Suc i))"

definition re_search :: "rx list \<Rightarrow> string \<Rightarrow> (nat \<times> nat list) option" where
  "re_search r s = search_from r None s 0"

text \<open>\<open>match.group()\<close>: the text of the whole match.\<close>

definition group0 :: "string \<Rightarrow> nat \<times> nat list \<Rightarrow> string" where
  "group0 s m = take (sum_list (snd m)) (drop (fst m) s)"

text \<open>The text consumed by the items \<open>k, ..., k + n - 1\<close> of the pattern (a group).\<close>

definition group_items :: "string \<Rightarrow> nat \<times> nat list \<Rightarrow> nat \<Rightarrow> nat \<Rightarrow> string" where
  "group_items s m k n =
     take (sum_list (take n (drop k (snd m))))
          (drop (fst m + sum_list (take k (snd m))) s)"

definition re_found :: "rx list \<Rightarrow> string \<Rightarrow> bool" where
  "re_found r s = (re_search r s \<noteq> None)"


section \<open>The orchestrator (orchestrator.py)\<close>

abbreviation NL :: char where "NL \<equiv> CHR 0x0A"
abbreviation QUOTE :: char where "QUOTE \<equiv> CHR 0x27"
abbreviation DQUOTE :: char where "DQUOTE \<equiv> CHR 0x22"

text \<open>
  \<open>reflect\<close> mutates the step it is given and appends one line to the plan's reflection
  log. \<open>reflect_step\<close> is the effect on the step, with the line.
\<close>

definition reflect_step :: "TaskStep \<Rightarrow> string \<Rightarrow> bool \<Rightarrow> TaskStep \<times> string" where
  "reflect_step step res success =
     (if success
      then (step\<lparr>status := ''completed'', result := res\<rparr>,
            ''Langkah '' @ str_int (step_id step) @ '' berhasil: '' @ description step)
      else let step1 = step\<lparr>attempts := attempts step + 1\<rparr> in
           if attempts step1 \<ge> max_attempts step1
           then (step1\<lparr>status := ''failed'', error := res\<rparr>,
                 ''Langkah '' @ str_int (step_id step1) @ '' gagal setelah ''
                 @ str_int (max_attempts step1) @ '' percobaan: '' @ description step1)
           else (step1\<lparr>status := ''pending'', error := res\<rparr>,
                 ''Langkah '' @ str_int (step_id step1) @ '' gagal (percobaan ''
                 @ str_int (attempts step1) @ ''/'' @ str_int (max_attempts step1)
                 @ ''), akan dicoba lagi''))"

text \<open>The step is the object at position \<open>i\<close> of \<open>plan.steps\<close>.\<close>

definition reflect :: "ExecutionPlan \<Rightarrow> nat \<Rightarrow> string \<Rightarrow> bool \<Rightarrow> ExecutionPlan \<times> string" where
  "reflect plan i res success =
     (let (step', reflection) = reflect_step (steps plan ! i) res success
      in (plan\<lparr>steps := (steps plan)[i := step'],
                reflection_log := reflection_log plan @ [reflection]\<rparr>, reflection))"

text \<open>\<open>re.search(r"no module named ['\"]?(\w+)", error_lower)\<close> and its group 1.\<close>

definition module_pattern :: "rx list" where
  "module_pattern = [Str ''no module named '', Opt (CSet [QUOTE, DQUOTE]), Plus CWord]"

definition alternative_agents :: "string \<Rightarrow> string option" where
  "alternative_agents k =
     (if k = ''coder'' then Some ''file''
      else if k = ''file'' then Some ''coder''
      else if k = ''web'' then Some ''casual''
      else if k = ''casual'' then Some ''coder''
      else None)"

text \<open>The capability and the strategy text that \<open>revise_plan\<close> picks from the error.\<close>

definition recovery_choice :: "TaskStep \<Rightarrow> string \<times> string" where
  "recovery_choice failed_step =
     (let error_lower = lower (error failed_step) in
      if contains error_lower ''no module named'' \<or> contains error_lower ''import''
      then (let module_name =
                  (case re_search module_pattern error_lower of
                     Some m \<Rightarrow> group_items error_lower m 2 1
                   | None \<Rightarrow> ''yang dibutuhkan'')
            in (lower (agent_type failed_step),
                ''[RECOVERY - INSTALL DEPENDENCY] Install dependency '' @ [QUOTE] @ module_name
                @ [QUOTE] @ '' terlebih dahulu menggunakan pip install, lalu ulangi tugas: ''
                @ description failed_step))
      else if contains error_lower ''permission'' \<or> contains error_lower ''access denied''
      then (''file'',
            ''[RECOVERY - FIX PERMISSIONS] Perbaiki permission/akses file yang bermasalah, ''
            @ ''lalu ulangi tugas: '' @ description failed_step)
      else if contains error_lower ''syntax'' \<or> contains error_lower ''syntaxerror''
      then (''coder'',
            ''[RECOVERY - FIX SYNTAX] Perbaiki syntax error dalam kode. ''
            @ ''Baca file yang bermasalah, identifikasi error syntax, dan perbaiki. ''
            @ ''Tugas asli: '' @ description failed_step)
      else if contains error_lower ''timeout'' \<or> contains error_lower ''connection''
      then (''web'',
            ''[RECOVERY - RETRY CONNECTION] ''
            @ ''Coba lagi dengan query pencarian berbeda atau URL alternatif. ''
            @ ''Tugas asli: '' @ description failed_step)
      else ((case alternative_agents (lower (agent_type failed_step)) of
               Some a \<Rightarrow> a
             | None \<Rightarrow> agent_type failed_step),
            ''[RECOVERY] Coba lagi dengan pendekatan berbeda: '' @ description failed_step))"

definition recovery_instruction :: string where
  "recovery_instruction =
     [NL] @ ''INSTRUKSI: Gunakan pendekatan BERBEDA. Jangan ulangi cara yang sama. ''
     @ ''Kamu dilarang meminta klarifikasi, langsung eksekusi.''"

definition recovery_suffix :: "TaskStep \<Rightarrow> string" where
  "recovery_suffix failed_step =
     [NL, NL] @ ''ERROR SEBELUMNYA:'' @ [NL]
     @ take 500 (if error failed_step = [] then ''Unknown error'' else error failed_step)
     @ recovery_instruction"

definition retry_step :: "ExecutionPlan \<Rightarrow> TaskStep \<Rightarrow> TaskStep" where
  "retry_step plan failed_step =
     (let (recovery_agent, recovery_description) = recovery_choice failed_step
      in new_TaskStep (int (length (steps plan)) + 1)
           (recovery_description @ recovery_suffix failed_step)
           recovery_agent 2 (dependencies failed_step))"

definition append_recovery :: "ExecutionPlan \<Rightarrow> TaskStep \<Rightarrow> ExecutionPlan" where
  "append_recovery plan failed_step = plan\<lparr>steps := steps plan @ [retry_step plan failed_step]\<rparr>"

text \<open>\<open>revise_plan\<close> works on \<open>self.plan\<close> and returns at once when there is none.\<close>

definition revise_plan :: "ExecutionPlan option \<Rightarrow> TaskStep \<Rightarrow> ExecutionPlan option" where
  "revise_plan self_plan failed_step =
     (case self_plan of None \<Rightarrow> None | Some plan \<Rightarrow> Some (append_recovery plan failed_step))"

text \<open>
  The input of \<open>run_loop\<close>: pairs of a task name and a dictionary, read with
  \<open>get('need', [])\<close>, \<open>get('task', task_name)\<close> and \<open>get('agent', 'coder')\<close>. The value
  under \<open>need\<close> is a list of ids or one id.
\<close>

datatype need_value = NeedList "string list" | NeedStr string

record task_info =
  need :: "need_value option"
  task :: "string option"
  agent :: "string option"

definition task_deps :: "task_info \<Rightarrow> string list" where
  "task_deps info =
     (case need info of
        None \<Rightarrow> []
      | Some (NeedList ds) \<Rightarrow> ds
      | Some (NeedStr d) \<Rightarrow> (if d \<noteq> [] then [d] else []))"

fun plan_steps_from :: "nat \<Rightarrow> (string \<times> task_info) list \<Rightarrow> TaskStep list" where
  "plan_steps_from i [] = []"
| "plan_steps_from i ((task_name, info) # rest) =
     new_TaskStep (int i + 1)
       (case task info of Some t \<Rightarrow> t | None \<Rightarrow> task_name)
       (case agent info of Some a \<Rightarrow> a | None \<Rightarrow> ''coder'')
       3 (task_deps info)
     # plan_steps_from (Suc i) rest"

definition create_plan_from_tasks ::
  "real \<Rightarrow> string \<Rightarrow> (string \<times> task_info) list \<Rightarrow> ExecutionPlan" where
  "create_plan_from_tasks now g agent_tasks =
     \<lparr>goal = g, steps = plan_steps_from 0 agent_tasks, current_step = 0, completed = False,
      reflection_log = [], start_time = now\<rparr>"

text \<open>
  \<open>execute_step\<close>. The keys of \<open>self.agents\<close> are given in dictionary order. What the
  handler does is outside the program: the environment supplies, for each call, either
  the answer with the handler's success flag or the text of an exception raised inside
  the \<open>try\<close> block. The prompt and the notifications have no effect on the plan and are not
  modelled; an answer of \<open>None\<close> is the empty string. A key that resolves to no handler
  raises \<open>KeyError\<close> before the \<open>try\<close> block, and the exception leaves \<open>run_loop\<close>.
\<close>

datatype agent_reply = Answered string bool | Raised string

datatype py_error = KeyError string | OSError string

definition resolve_agent_key :: "string list \<Rightarrow> string \<Rightarrow> string" where
  "resolve_agent_key agents a_type =
     (let agent_key = lower a_type in
      if agent_key \<in> set agents then agent_key
      else (case List.find (\<lambda>key. startswith key (take 3 agent_key)) agents of
              Some key \<Rightarrow> key
            | None \<Rightarrow> ''coder''))"

definition execute_step :: "string list \<Rightarrow> agent_reply \<Rightarrow> TaskStep \<Rightarrow> py_error + string \<times> bool" where
  "execute_step agents reply step =
     (let agent_key = resolve_agent_key agents (agent_type step) in
      if agent_key \<notin> set agents then Inl (KeyError agent_key)
      else (case reply of
              Answered answer success \<Rightarrow> Inr (answer, success)
            | Raised e \<Rightarrow> Inr (''Error: '' @ e, False)))"

text \<open>
  The state of the loop of \<open>run_loop\<close>. \<open>executed\<close> is not a variable of the source: it
  records, in order, the id of every step handed to \<open>execute_step\<close>, so that the runs of
  the loop body can be counted and named.
\<close>

record loop_state =
  cur_plan :: ExecutionPlan
  iteration :: nat
  consecutive_failures :: nat
  work_results :: "string \<rightharpoonup> string"
  final_answer :: string
  executed :: "int list"

text \<open>The deadlock branch: every step still pending is failed with the deadlock error.\<close>

definition fail_pending :: "TaskStep \<Rightarrow> TaskStep" where
  "fail_pending s =
     (if status s = ''pending''
      then s\<lparr>status := ''failed'', error := ''Dependency deadlock: langkah yang dibutuhkan gagal''\<rparr>
      else s)"

definition break_deadlock :: "ExecutionPlan \<Rightarrow> ExecutionPlan" where
  "break_deadlock plan =
     (let has_pending = list_ex (\<lambda>s. status s = ''pending'') (steps plan) in
      if has_pending then plan\<lparr>steps := map fail_pending (steps plan)\<rparr> else plan)"

text \<open>
  One run of the loop body on the step at position \<open>i\<close>. The reply of the handler for
  this call is \<open>replies\<close> at the new value of \<open>iteration\<close>. With a \<open>KeyError\<close> the state is
  the one the exception leaves behind.
\<close>

definition run_step ::
  "string list \<Rightarrow> (nat \<Rightarrow> agent_reply) \<Rightarrow> loop_state \<Rightarrow> nat \<Rightarrow> py_error option \<times> loop_state" where
  "run_step agents replies st i =
     (let iteration' = iteration st + 1;
          plan0 = cur_plan st;
          step = steps plan0 ! i;
          plan1 = plan0\<lparr>steps := (steps plan0)[i := step\<lparr>status := ''running''\<rparr>]\<rparr>;
          st1 = st\<lparr>cur_plan := plan1, iteration := iteration',
                   executed := executed st @ [step_id step]\<rparr>
      in case execute_step agents (replies iteration') step of
           Inl e \<Rightarrow> (Some e, st1)
         | Inr (res, success) \<Rightarrow>
             (let (plan2, reflection) = reflect plan1 i res success;
                  failures = (if success then 0 else consecutive_failures st + 1);
                  step2 = steps plan2 ! i;
                  plan3 = (if \<not> success \<and> status step2 = ''failed'' \<and> failures < 3
                           then append_recovery plan2 step2 else plan2)
              in (None, st1\<lparr>cur_plan := plan3, consecutive_failures := failures,
                            work_results := (work_results st)(str_int (step_id step) \<mapsto> res),
                            final_answer := (if success then res else final_answer st)\<rparr>)))"

function run_while ::
  "string list \<Rightarrow> (nat \<Rightarrow> agent_reply) \<Rightarrow> nat \<Rightarrow> loop_state \<Rightarrow> py_error option \<times> loop_state" where
  "run_while agents replies max_iterations st =
     (if \<not> is_complete (cur_plan st) \<and> iteration st < max_iterations
      then (case next_step_index (cur_plan st) of
              None \<Rightarrow> (None, st\<lparr>cur_plan := break_deadlock (cur_plan st)\<rparr>)
            | Some i \<Rightarrow>
                (case run_step agents replies st i of
                   (Some e, st') \<Rightarrow> (Some e, st')
                 | (None, st') \<Rightarrow> run_while agents replies max_iterations st'))
      else (None, st))"
  by pat_completeness auto
termination
  apply (relation "measure (\<lambda>(agents, replies, max_iterations, st). max_iterations - iteration st)")
   apply simp
  apply (auto simp: run_step_def Let_def split: sum.splits prod.splits)
  done

declare run_while.simps [simp del]

definition initial_state :: "ExecutionPlan \<Rightarrow> loop_state" where
  "initial_state plan =
     \<lparr>cur_plan = plan, iteration = 0, consecutive_failures = 0, work_results = Map.empty,
      final_answer = '''', executed = []\<rparr>"

text \<open>\<open>run_loop\<close> up to the end of its loop: the exception, if any, and the final state.\<close>

definition run_loop_state ::
  "real \<Rightarrow> string list \<Rightarrow> (nat \<Rightarrow> agent_reply) \<Rightarrow> string \<Rightarrow> (string \<times> task_info) list
   \<Rightarrow> py_error option \<times> loop_state" where
  "run_loop_state now agents replies g agent_tasks =
     (let plan = create_plan_from_tasks now g agent_tasks;
          max_iterations = length (steps plan) * 4
      in run_while agents replies max_iterations (initial_state plan))"

fun join :: "string \<Rightarrow> string list \<Rightarrow> string" where
  "join sep [] = []"
| "join sep [x] = x"
| "join sep (x # y # ys) = x @ sep @ join sep (y # ys)"

definition count_status :: "string \<Rightarrow> ExecutionPlan \<Rightarrow> nat" where
  "count_status v plan = length (filter (\<lambda>s. status s = v) (steps plan))"

text \<open>
  The summary. The progress text and the elapsed time print clock readings; they are taken
  as given texts.
\<close>

definition hasil_line :: "nat \<Rightarrow> nat \<Rightarrow> string \<Rightarrow> string" where
  "hasil_line n_completed n_total elapsed_text =
     ''**Hasil:** '' @ str_nat n_completed @ ''/'' @ str_nat n_total
     @ '' langkah selesai dalam '' @ elapsed_text @ '' detik''"

definition summary_lines :: "string \<Rightarrow> string \<Rightarrow> loop_state \<Rightarrow> string list" where
  "summary_lines progress_text elapsed_text st =
     (let plan = cur_plan st;
          n_completed = count_status ''completed'' plan;
          n_total = length (steps plan)
      in [progress_text, [NL] @ ''---'' @ [NL], hasil_line n_completed n_total elapsed_text]
         @ (if reflection_log plan \<noteq> []
            then ([NL] @ ''**Log refleksi:**'')
                 # map (\<lambda>log_entry. ''  - '' @ log_entry)
                       (drop (length (reflection_log plan) - 5) (reflection_log plan))
            else [])
         @ (if final_answer st \<noteq> []
            then [[NL, NL] @ ''**Hasil akhir:**'' @ [NL] @ final_answer st]
            else []))"

definition run_loop ::
  "real \<Rightarrow> string \<Rightarrow> string \<Rightarrow> string list \<Rightarrow> (nat \<Rightarrow> agent_reply) \<Rightarrow> string
   \<Rightarrow> (string \<times> task_info) list \<Rightarrow> py_error + string" where
  "run_loop now progress_text elapsed_text agents replies g agent_tasks =
     (case run_loop_state now agents replies g agent_tasks of
        (Some e, st) \<Rightarrow> Inl e
      | (None, st) \<Rightarrow> Inr (join [NL] (summary_lines progress_text elapsed_text st)))"

section \<open>The sandbox (sandbox.py)\<close>

subsection \<open>The pattern tables\<close>

definition word :: "string \<Rightarrow> rx list" where
  "word w = [B, Str w, B]"

definition DANGEROUS_PATTERNS :: "rx list list" where
  "DANGEROUS_PATTERNS =
     [word ''os.system'',
      word ''os.popen'',
      [B, Str ''os.exec'', Star CWord, B],
      [B, Str ''os.spawn'', Star CWord, B],
      word ''os.kill'',
      word ''os.remove'',
      word ''os.unlink'',
      word ''os.rmdir'',
      [B, Str ''subprocess.'', Plus CWord],
      word ''shutil.rmtree'',
      word ''shutil.move'',
      word ''__import__'',
      word ''importlib'',
      [B, Str ''eval'', Star CSpace, Str ''(''],
      [B, Str ''exec'', Star CSpace, Str ''(''],
      [B, Str ''compile'', Star CSpace, Str ''(''],
      [B, Str ''open'', Star CSpace, Str ''('', Star CDot, Str ''/etc/''],
      [B, Str ''socket.'', Plus CWord],
      word ''ctypes'',
      [B, Str ''signal.SIG''],
      word ''sys.exit'',
      word ''os._exit'',
      word ''Pickle'',
      word ''pickle.loads'',
      word ''marshall'']"

definition SERVER_START_PATTERNS :: "rx list list" where
  "SERVER_START_PATTERNS =
     [[Str ''.run'', Star CSpace, Str ''(''],
      [Str ''app.run'', Star CSpace, Str ''(''],
      [Str ''uvicorn.run'', Star CSpace, Str ''(''],
      [Str ''serve'', Star CSpace, Str ''('', Star CSpace, Str ''app''],
      [Str ''httpd.serve_forever'', Star CSpace, Str ''(''],
      [Str ''socketserver.''],
      [Str ''http.server''],
      [Str ''waitress.serve'', Star CSpace, Str ''(''],
      [Str ''gunicorn''],
      [Str ''flask'', Plus CSpace, Str ''run'']]"

definition DANGEROUS_BASH_PATTERNS :: "rx list list" where
  "DANGEROUS_BASH_PATTERNS =
     [[B, Str ''rm'', Plus CSpace, Str ''-rf'', B],
      [B, Str ''rm'', Plus CSpace, Str ''-fr'', B],
      [B, Str ''rm'', Plus CSpace, Str ''--no-preserve-root'', B],
      [B, Str ''dd'', Plus CSpace],
      word ''mkfs'',
      word ''fdisk'',
      word ''parted'',
      [B, Str ''chmod'', Plus CSpace, Str ''777'', B],
      [B, Str ''chmod'', Plus CSpace, Str ''-R'', B],
      [B, Str ''chown'', Plus CSpace, Str ''-R'', B],
      [B, Str '':()'', Star CSpace, Str ''{'', Star CSpace, Str '':|:'', Star CSpace, Str ''&'',
       Star CSpace, Str ''}'', Star CSpace, Str '';''],
      word ''shutdown'',
      word ''reboot'',
      word ''halt'',
      [B, Str ''init'', Plus CSpace, Str ''0'', B],
      [B, Str ''systemctl'', Plus CSpace, Alt [''stop'', ''disable'', ''mask''], B],
      [B, Str ''mv'', Plus CSpace, Str ''/'', B],
      [B, Str ''>'', Star CSpace, Str ''/dev/sd''],
      [B, Str ''curl'', B, Star CDot, Str ''|'', Star CSpace, Str ''bash''],
      [B, Str ''wget'', B, Star CDot, Str ''|'', Star CSpace, Str ''bash''],
      [B, Str ''nc'', Plus CSpace, Str ''-l''],
      word ''netcat'',
      word ''nmap'',
      word ''iptables'',
      word ''passwd'',
      word ''useradd'',
      word ''userdel'',
      word ''visudo'',
      word ''sudo'',
      [B, Str ''su'', Plus CSpace],
      word ''chroot'']"

definition DANGEROUS_JS_PATTERNS :: "rx list list" where
  "DANGEROUS_JS_PATTERNS =
     [word ''child_process'',
      [B, Str ''exec'', Star CSpace, Str ''(''],
      word ''execSync'',
      word ''spawn'',
      word ''spawnSync'',
      [B, Str ''eval'', Star CSpace, Str ''(''],
      [B, Str ''Function'', Star CSpace, Str ''(''],
      word ''fs.rmSync'',
      word ''fs.unlinkSync'',
      word ''process.exit'',
      [B, Str ''require'', Star CSpace, Str ''('', Star CSpace, One (CSet [DQUOTE, QUOTE]),
       Str ''child_process'', One (CSet [DQUOTE, QUOTE]), Star CSpace, Str '')'']]"

record lang_config =
  extension :: string
  command :: "string list"
  patterns :: "rx list list"

definition LANGUAGE_CONFIG :: "string \<Rightarrow> lang_config option" where
  "LANGUAGE_CONFIG lang =
     (if lang = ''python''
      then Some \<lparr>extension = ''.py'', command = [''python3''], patterns = DANGEROUS_PATTERNS\<rparr>
      else if lang = ''javascript''
      then Some \<lparr>extension = ''.js'', command = [''node''], patterns = DANGEROUS_JS_PATTERNS\<rparr>
      else if lang = ''nodejs''
      then Some \<lparr>extension = ''.js'', command = [''node''], patterns = DANGEROUS_JS_PATTERNS\<rparr>
      else if lang = ''bash''
      then Some \<lparr>extension = ''.sh'', command = [''bash''], patterns = DANGEROUS_BASH_PATTERNS\<rparr>
      else if lang = ''go''
      then Some \<lparr>extension = ''.go'', command = [''go'', ''run''], patterns = []\<rparr>
      else None)"

definition LANGUAGE_CONFIG_keys :: "string list" where
  "LANGUAGE_CONFIG_keys = [''python'', ''javascript'', ''nodejs'', ''bash'', ''go'']"

definition MAX_OUTPUT_LENGTH :: nat where
  "MAX_OUTPUT_LENGTH = 50000"

definition RESTRICTED_PATHS :: "string list" where
  "RESTRICTED_PATHS =
     [''/etc/passwd'', ''/etc/shadow'', ''/etc/sudoers'', ''/root'', ''/proc'', ''/sys'',
      ''/home/runner/.config'']"

subsection \<open>Results and the executor\<close>

record SandboxResult =
  success :: bool
  output_text :: string
  errors :: string
  execution_time :: real
  language :: string
  timed_out :: bool
  blocked :: bool
  blocked_reason :: string
  truncated :: bool

text \<open>The constructor of the dataclass, with its defaults for the last four fields.\<close>

definition new_SandboxResult :: "bool \<Rightarrow> string \<Rightarrow> string \<Rightarrow> real \<Rightarrow> string \<Rightarrow> SandboxResult" where
  "new_SandboxResult ok out err t lang =
     \<lparr>success = ok, output_text = out, errors = err, execution_time = t, language = lang,
      timed_out = False, blocked = False, blocked_reason = '''', truncated = False\<rparr>"

record SafeExecutor =
  work_dir :: string
  timeout :: int
  max_memory_mb :: int
  block_network :: bool
  isolation_mode :: string

definition truncate_output :: "string \<Rightarrow> string \<times> bool" where
  "truncate_output text =
     (if length text > MAX_OUTPUT_LENGTH
      then (take MAX_OUTPUT_LENGTH text @ [NL, NL] @ ''... [output truncated, ''
            @ str_nat (length text - MAX_OUTPUT_LENGTH) @ '' chars omitted]'', True)
      else (text, False))"

definition check_path_safety :: "SafeExecutor \<Rightarrow> string \<Rightarrow> bool \<times> string" where
  "check_path_safety self code =
     (case List.find (\<lambda>restricted. contains code restricted) RESTRICTED_PATHS of
        Some restricted \<Rightarrow> (False, ''Access to restricted path blocked: '' @ restricted)
      | None \<Rightarrow>
          if isolation_mode self = ''workspace'' \<and> re_found [Str ''../../../''] code
          then (False, ''Path traversal beyond workspace detected'')
          else (True, ''''))"

definition server_indicators :: "rx list list" where
  "server_indicators =
     [[Str ''from'', Plus CSpace, Str ''flask'', Plus CSpace, Str ''import''],
      [Str ''from'', Plus CSpace, Str ''fastapi'', Plus CSpace, Str ''import''],
      [Str ''import'', Plus CSpace, Str ''flask''],
      [Str ''import'', Plus CSpace, Str ''fastapi''],
      [Str ''app'', Star CSpace, Str ''='', Star CSpace, Str ''Flask'', Star CSpace, Str ''(''],
      [Str ''app'', Star CSpace, Str ''='', Star CSpace, Str ''FastAPI'', Star CSpace, Str ''(''],
      [Str ''app.run'', Star CSpace, Str ''(''],
      [Str ''uvicorn.run'', Star CSpace, Str ''(''],
      [Str ''@app.route'', Star CSpace, Str ''(''],
      [Str ''@app.'', Alt [''get'', ''post'', ''put'', ''delete'', ''patch''], Star CSpace,
       Str ''('']]"

definition is_server_code :: "string \<Rightarrow> bool" where
  "is_server_code code =
     (if code = [] then False
      else let matches = length (filter (\<lambda>p. re_found p code) server_indicators)
           in matches \<ge> 2)"

text \<open>\<open>code.split('\n')\<close>.\<close>

fun split_lines :: "string \<Rightarrow> string \<Rightarrow> string list" where
  "split_lines cur [] = [cur]"
| "split_lines cur (c # cs) =
     (if c = NL then cur # split_lines [] cs else split_lines (cur @ [c]) cs)"

definition is_server_line :: "string \<Rightarrow> bool" where
  "is_server_line stripped = list_ex (\<lambda>pattern. re_found pattern stripped) SERVER_START_PATTERNS"

text \<open>The loop of \<open>_strip_server_start\<close> over the lines, with its flag \<open>skip_block\<close>.\<close>

fun strip_lines :: "bool \<Rightarrow> string list \<Rightarrow> string list" where
  "strip_lines skip_block [] = []"
| "strip_lines skip_block (line # rest) =
     (let stripped = strip line in
      if is_server_line stripped
      then (''# [sandbox] server start removed: '' @ stripped) # strip_lines skip_block rest
      else if startswith stripped ''if __name__'' \<and> contains stripped ''__main__''
      then (''# [sandbox] main block removed: '' @ stripped) # strip_lines True rest
      else if skip_block
      then (if stripped = [] \<or> take 1 line = '' '' \<or> take 1 line = [CHR 0x09]
            then (''# [sandbox] '' @ stripped) # strip_lines skip_block rest
            else line # strip_lines False rest)
      else line # strip_lines skip_block rest)"

definition strip_server_start :: "string \<Rightarrow> string \<Rightarrow> string" where
  "strip_server_start code lang =
     (if lang \<noteq> ''python'' then code
      else join [NL] (strip_lines False (split_lines [] code)))"

definition network_patterns :: "rx list list" where
  "network_patterns =
     [word ''socket'', word ''urllib'', word ''requests'', word ''httplib'', word ''http'']"

text \<open>The first pattern of a list that is found, with the text it matched.\<close>

fun first_match :: "rx list list \<Rightarrow> string \<Rightarrow> string option" where
  "first_match [] code = None"
| "first_match (pattern # rest) code =
     (case re_search pattern code of
        Some m \<Rightarrow> Some (group0 code m)
      | None \<Rightarrow> first_match rest code)"

definition validate_code :: "SafeExecutor \<Rightarrow> string \<Rightarrow> string \<Rightarrow> bool \<times> string" where
  "validate_code self code lang =
     (let (path_safe, path_reason) = check_path_safety self code in
      if \<not> path_safe then (False, path_reason)
      else (case LANGUAGE_CONFIG lang of
              None \<Rightarrow> (True, '''')
            | Some config \<Rightarrow>
                (case first_match (patterns config) code of
                   Some g \<Rightarrow> (False, ''Blocked dangerous pattern: '' @ g)
                 | None \<Rightarrow>
                     if block_network self \<and> lang = ''python''
                     then (case first_match network_patterns code of
                             Some g \<Rightarrow> (False, ''Network access blocked: '' @ g)
                           | None \<Rightarrow> (True, ''''))
                     else (True, ''''))))"

definition validate_python :: "SafeExecutor \<Rightarrow> string \<Rightarrow> bool \<times> string" where
  "validate_python self code = validate_code self code ''python''"

definition validate_bash :: "SafeExecutor \<Rightarrow> string \<Rightarrow> bool \<times> string" where
  "validate_bash self cmd = validate_code self cmd ''bash''"

subsection \<open>Child processes\<close>

text \<open>
  What a child process does is outside the program. A request to start one is a value of
  \<open>spawn\<close>; the environment \<open>os\<close> answers the \<open>n\<close>-th request of a run with an outcome:
  the process exited (return code, decoded stdout and stderr, elapsed seconds), it ran
  past the timeout and was killed (the stdout read after the kill, elapsed seconds), or
  starting it raised. Every function that may start a process takes the list of the
  requests made so far and returns it extended, so a snippet was executed exactly when a
  request for it is in that list.
\<close>

datatype spawn =
  RunFile "string list" string string
| RunShell string
| PipInstall string

datatype outcome =
  Exited int string string real
| TimedOut string real
| SpawnFailed string real

type_synonym os_env = "nat \<Rightarrow> spawn \<Rightarrow> outcome"

definition start :: "os_env \<Rightarrow> spawn \<Rightarrow> spawn list \<Rightarrow> outcome \<times> spawn list" where
  "start os req spawned = (os (length spawned) req, spawned @ [req])"

text \<open>
  \<open>_run_code_subprocess\<close>: the code is written to a temporary file with the extension of
  the language and the command of the language is run on it. An exception of \<open>Popen\<close> is
  not caught here.
\<close>

definition run_code_subprocess ::
  "os_env \<Rightarrow> SafeExecutor \<Rightarrow> string \<Rightarrow> string \<Rightarrow> lang_config \<Rightarrow> spawn list
   \<Rightarrow> (py_error + SandboxResult) \<times> spawn list" where
  "run_code_subprocess os self code lang config spawned =
     (let (out, spawned') = start os (RunFile (command config) (extension config) code) spawned
      in case out of
           Exited returncode stdout stderr t \<Rightarrow>
             (let (out_text, was_truncated) = truncate_output stdout
              in (Inr ((new_SandboxResult (returncode = 0) out_text stderr t lang)
                        \<lparr>truncated := was_truncated\<rparr>), spawned'))
         | TimedOut stdout t \<Rightarrow>
             (Inr ((new_SandboxResult False stdout
                      (''Execution timed out after '' @ str_int (timeout self) @ '' seconds'')
                      t lang)
                     \<lparr>timed_out := True\<rparr>), spawned')
         | SpawnFailed e t \<Rightarrow> (Inl (OSError e), spawned'))"

text \<open>\<open>re.search(r"No module named ['\"]([^'\"]+)['\"]", error_text)\<close>.\<close>

definition missing_module_pattern :: "rx list" where
  "missing_module_pattern =
     [Str ''No module named '', One (CSet [QUOTE, DQUOTE]), Plus (CNotSet [QUOTE, DQUOTE]),
      One (CSet [QUOTE, DQUOTE])]"

definition pkg_map :: "string \<Rightarrow> string option" where
  "pkg_map m =
     (if m = ''bs4'' then Some ''beautifulsoup4''
      else if m = ''cv2'' then Some ''opencv-python''
      else if m = ''PIL'' then Some ''Pillow''
      else if m = ''sklearn'' then Some ''scikit-learn''
      else if m = ''yaml'' then Some ''pyyaml''
      else if m = ''dotenv'' then Some ''python-dotenv''
      else if m = ''gi'' then Some ''PyGObject''
      else None)"

definition try_auto_install :: "os_env \<Rightarrow> string \<Rightarrow> spawn list \<Rightarrow> bool \<times> spawn list" where
  "try_auto_install os error_text spawned =
     (case re_search missing_module_pattern error_text of
        None \<Rightarrow> (False, spawned)
      | Some m \<Rightarrow>
          (let module_name = takeWhile (\<lambda>c. c \<noteq> CHR ''.'') (group_items error_text m 2 1);
               pkg_name = (case pkg_map module_name of Some p \<Rightarrow> p | None \<Rightarrow> module_name);
               (out, spawned') = start os (PipInstall pkg_name) spawned
           in case out of
                Exited returncode stdout stderr t \<Rightarrow> (returncode = 0, spawned')
              | TimedOut stdout t \<Rightarrow> (False, spawned')
              | SpawnFailed e t \<Rightarrow> (False, spawned')))"

subsection \<open>Shell commands\<close>

definition is_system_install :: "string \<Rightarrow> bool" where
  "is_system_install cmd =
     (let cmd_lower = strip (lower cmd) in
      list_ex (\<lambda>pattern. contains cmd_lower pattern)
        [''apt install'', ''apt-get install'', ''apt update'', ''apt-get update'',
         ''brew install'', ''conda install''])"

definition is_allowed_install :: "string \<Rightarrow> bool" where
  "is_allowed_install cmd =
     (let cmd_lower = strip (lower cmd) in
      list_ex (\<lambda>pattern. contains cmd_lower pattern)
        [''pip install'', ''pip3 install'', ''npm install'', ''npm i '', ''yarn add'',
         ''yarn install'', ''npx '', ''npm init'', ''npm create''])"

text \<open>\<open>s.replace(old, new)\<close> for a non-empty \<open>old\<close>: every occurrence, left to right.\<close>

function replace :: "string \<Rightarrow> string \<Rightarrow> string \<Rightarrow> string" where
  "replace s old new =
     (if s = [] \<or> old = [] then s
      else if startswith s old then new @ replace (drop (length old) s) old new
      else hd s # replace (tl s) old new)"
  by pat_completeness auto
termination
  by (relation "measure (\<lambda>(s, old, new). length s)") auto

declare replace.simps [simp del]

text \<open>
  \<open>_execute_shell_raw\<close>: \<open>bash -c command\<close>. Here an exception is caught and becomes a
  failed result.
\<close>

definition execute_shell_raw ::
  "os_env \<Rightarrow> SafeExecutor \<Rightarrow> string \<Rightarrow> spawn list \<Rightarrow> SandboxResult \<times> spawn list" where
  "execute_shell_raw os self cmd spawned =
     (let (out, spawned') = start os (RunShell cmd) spawned
      in case out of
           Exited returncode stdout stderr t \<Rightarrow>
             (let (out_text, was_truncated) = truncate_output stdout
              in ((new_SandboxResult (returncode = 0) out_text stderr t ''bash'')
                    \<lparr>truncated := was_truncated\<rparr>, spawned'))
         | TimedOut stdout t \<Rightarrow>
             ((new_SandboxResult False stdout
                 (''Execution timed out after '' @ str_int (timeout self) @ '' seconds'')
                 t ''bash'')
                \<lparr>timed_out := True\<rparr>, spawned')
         | SpawnFailed e t \<Rightarrow> (new_SandboxResult False '''' e t ''bash'', spawned'))"

definition blocked_result :: "string \<Rightarrow> string \<Rightarrow> SandboxResult" where
  "blocked_result reason lang =
     (new_SandboxResult False '''' reason 0 lang)\<lparr>blocked := True, blocked_reason := reason\<rparr>"

definition execute_shell ::
  "os_env \<Rightarrow> SafeExecutor \<Rightarrow> string \<Rightarrow> spawn list \<Rightarrow> SandboxResult \<times> spawn list" where
  "execute_shell os self cmd spawned =
     (if is_system_install cmd
      then (new_SandboxResult True
              (''[blocked] System package install not allowed: '' @ strip cmd @ [NL]
               @ ''Gunakan pip/npm/yarn untuk install packages.'')
              '''' 0 ''bash'', spawned)
      else if is_allowed_install cmd
      then execute_shell_raw os self (replace cmd '' --break-system-packages'' '''') spawned
      else (let (is_safe, reason) = validate_bash self cmd in
            if \<not> is_safe then (blocked_result reason ''bash'', spawned)
            else execute_shell_raw os self cmd spawned))"

subsection \<open>Code snippets\<close>

definition server_code_result :: "string \<Rightarrow> SandboxResult" where
  "server_code_result lang =
     new_SandboxResult True
       (''[server code] File backend berhasil disimpan. Server tidak dijalankan di sandbox ''
        @ ''karena port sudah digunakan. File siap digunakan.'')
       '''' 0 lang"

text \<open>
  \<open>_execute_code\<close>. The loop over \<open>range(2)\<close> is written out: the second run happens only
  after a failed python run that reports a missing module and a successful install.
\<close>

definition execute_code ::
  "os_env \<Rightarrow> SafeExecutor \<Rightarrow> string \<Rightarrow> string \<Rightarrow> spawn list
   \<Rightarrow> (py_error + SandboxResult) \<times> spawn list" where
  "execute_code os self code0 lang spawned =
     (if lang = ''python'' \<and> is_server_code code0 then (Inr (server_code_result lang), spawned)
      else
        let code = strip_server_start code0 lang;
            (is_safe, reason) = validate_code self code lang
        in if \<not> is_safe then (Inr (blocked_result reason lang), spawned)
           else (case LANGUAGE_CONFIG lang of
                   None \<Rightarrow>
                     (Inr (new_SandboxResult False '''' (''Unsupported language: '' @ lang) 0 lang),
                      spawned)
                 | Some config \<Rightarrow>
                     if lang = ''bash''
                     then (let (r, spawned') = execute_shell os self code spawned
                           in (Inr r, spawned'))
                     else (case run_code_subprocess os self code lang config spawned of
                             (Inl e, spawned1) \<Rightarrow> (Inl e, spawned1)
                           | (Inr result1, spawned1) \<Rightarrow>
                               if success result1 then (Inr result1, spawned1)
                               else if lang = ''python''
                                       \<and> contains (errors result1) ''No module named''
                               then (let (installed, spawned2) =
                                           try_auto_install os (errors result1) spawned1
                                     in if installed
                                        then run_code_subprocess os self code lang config spawned2
                                        else (Inr result1, spawned2))
                               else (Inr result1, spawned1))))"

definition execute_python ::
  "os_env \<Rightarrow> SafeExecutor \<Rightarrow> string \<Rightarrow> spawn list \<Rightarrow> (py_error + SandboxResult) \<times> spawn list" where
  "execute_python os self code spawned = execute_code os self code ''python'' spawned"

definition execute_bash ::
  "os_env \<Rightarrow> SafeExecutor \<Rightarrow> string \<Rightarrow> spawn list \<Rightarrow> (py_error + SandboxResult) \<times> spawn list" where
  "execute_bash os self cmd spawned =
     (let (r, spawned') = execute_shell os self cmd spawned in (Inr r, spawned'))"

definition execute_javascript ::
  "os_env \<Rightarrow> SafeExecutor \<Rightarrow> string \<Rightarrow> spawn list \<Rightarrow> (py_error + SandboxResult) \<times> spawn list" where
  "execute_javascript os self code spawned = execute_code os self code ''javascript'' spawned"

definition execute_go ::
  "os_env \<Rightarrow> SafeExecutor \<Rightarrow> string \<Rightarrow> spawn list \<Rightarrow> (py_error + SandboxResult) \<times> spawn list" where
  "execute_go os self code spawned = execute_code os self code ''go'' spawned"

subsection \<open>The facade\<close>

record Sandbox =
  executor :: SafeExecutor
  execution_history :: "(string \<times> SandboxResult) list"

text \<open>
  The four runners: the result is appended to the history under the runner's language.
  When the executor raises, nothing is appended and the exception leaves \<open>run\<close>.
\<close>

definition runner ::
  "string \<Rightarrow> (py_error + SandboxResult) \<times> spawn list \<Rightarrow> Sandbox
   \<Rightarrow> (py_error + SandboxResult) \<times> Sandbox \<times> spawn list" where
  "runner lang r self =
     (case r of
        (Inl e, spawned') \<Rightarrow> (Inl e, self, spawned')
      | (Inr res, spawned') \<Rightarrow>
          (Inr res, self\<lparr>execution_history := execution_history self @ [(lang, res)]\<rparr>,
           spawned'))"

definition run_python ::
  "os_env \<Rightarrow> Sandbox \<Rightarrow> string \<Rightarrow> spawn list \<Rightarrow> (py_error + SandboxResult) \<times> Sandbox \<times> spawn list" where
  "run_python os self code spawned =
     runner ''python'' (execute_python os (executor self) code spawned) self"

definition run_bash ::
  "os_env \<Rightarrow> Sandbox \<Rightarrow> string \<Rightarrow> spawn list \<Rightarrow> (py_error + SandboxResult) \<times> Sandbox \<times> spawn list" where
  "run_bash os self cmd spawned =
     runner ''bash'' (execute_bash os (executor self) cmd spawned) self"

definition run_javascript ::
  "os_env \<Rightarrow> Sandbox \<Rightarrow> string \<Rightarrow> spawn list \<Rightarrow> (py_error + SandboxResult) \<times> Sandbox \<times> spawn list" where
  "run_javascript os self code spawned =
     runner ''javascript'' (execute_javascript os (executor self) code spawned) self"

definition run_go ::
  "os_env \<Rightarrow> Sandbox \<Rightarrow> string \<Rightarrow> spawn list \<Rightarrow> (py_error + SandboxResult) \<times> Sandbox \<times> spawn list" where
  "run_go os self code spawned =
     runner ''go'' (execute_go os (executor self) code spawned) self"

definition supported_languages :: "string list" where
  "supported_languages = LANGUAGE_CONFIG_keys"

definition run ::
  "os_env \<Rightarrow> Sandbox \<Rightarrow> string \<Rightarrow> string \<Rightarrow> spawn list
   \<Rightarrow> (py_error + SandboxResult) \<times> Sandbox \<times> spawn list" where
  "run os self code language0 spawned =
     (let lang = strip (lower language0) in
      if lang = ''python'' then run_python os self code spawned
      else if lang = ''bash'' then run_bash os self code spawned
      else if lang = ''javascript'' \<or> lang = ''js'' \<or> lang = ''nodejs'' \<or> lang = ''node''
      then run_javascript os self code spawned
      else if lang = ''go'' \<or> lang = ''golang'' then run_go os self code spawned
      else (Inr (new_SandboxResult False ''''
                   (''Unsupported language: '' @ lang @ ''. Supported: ''
                    @ join '', '' supported_languages)
                   0 lang),
            self, spawned))"

text \<open>The keys of \<open>lang_map\<close> in \<open>Sandbox.run\<close>.\<close>

definition lang_map_keys :: "string list" where
  "lang_map_keys =
     [''python'', ''bash'', ''javascript'', ''js'', ''nodejs'', ''node'', ''go'', ''golang'']"

text \<open>A sandbox with the default settings and an empty history, for the examples.\<close>

definition sb0 :: Sandbox where
  "sb0 = \<lparr>executor = \<lparr>work_dir = ''/w'', timeout = 60, max_memory_mb = 1024,
                        block_network = False, isolation_mode = ''workspace''\<rparr>,
           execution_history = []\<rparr>"

text \<open>
  The indicators by kind, in the words of the specification: the four import patterns
  are the web-framework imports, and \<open>app.run(\<close> and \<open>uvicorn.run(\<close> are the server-start
  calls among the indicators.
\<close>

definition framework_imports :: "rx list list" where
  "framework_imports = take 4 server_indicators"

definition server_start_calls :: "rx list list" where
  "server_start_calls = [server_indicators ! 6, server_indicators ! 7]"

text \<open>A small Flask application that starts its server.\<close>

definition flask_app :: string where
  "flask_app = ''from flask import Flask'' @ [NL] @ ''app = Flask(__name__)'' @ [NL]
     @ ''app.run(port=5000)''"

text \<open>Reading a decimal numeral back: the inverse of \<open>str_nat\<close>.\<close>

definition digit_value :: "char \<Rightarrow> nat" where
  "digit_value c = of_char c - 48"

definition read_nat :: "string \<Rightarrow> nat" where
  "read_nat s = foldl (\<lambda>a c. 10 * a + digit_value c) 0 s"

text \<open>A text of 50,001 characters.\<close>

definition long_text :: string where
  "long_text = replicate 50001 (CHR ''e'')"

text \<open>A step of the examples: fresh, with the default three attempts.\<close>

definition step0 :: TaskStep where
  "step0 = new_TaskStep 1 ''write the script'' ''coder'' 3 []"

text \<open>
  The condition of the specification for a step to be the next one, in its words: the
  step is pending, and each of its dependency ids either is the id of no step of the plan
  or is the id of a completed step.
\<close>

definition ready_by_spec :: "ExecutionPlan \<Rightarrow> TaskStep \<Rightarrow> bool" where
  "ready_by_spec plan s =
     (status s = ''pending''
      \<and> (\<forall>d \<in> set (dependencies s).
            (\<forall>t \<in> set (steps plan). str_int (step_id t) \<noteq> d)
            \<or> (\<exists>t \<in> set (steps plan). str_int (step_id t) = d \<and> status t = ''completed'')))"

text \<open>The two-step plan of the examples: step 2 needs step 1.\<close>

definition two_steps :: "string \<Rightarrow> ExecutionPlan" where
  "two_steps status1 =
     \<lparr>goal = ''demo'',
      steps = [(new_TaskStep 1 ''write'' ''coder'' 3 [])\<lparr>status := status1\<rparr>,
               new_TaskStep 2 ''save'' ''file'' 3 [''1'']],
      current_step = 0, completed = False, reflection_log = [], start_time = 0\<rparr>"

text \<open>A failed step of the examples and the plan it belongs to.\<close>

definition failed_import :: TaskStep where
  "failed_import =
     (new_TaskStep 1 ''fetch the page'' ''Coder'' 3 [''7''])
       \<lparr>status := ''failed'', attempts := 3,
        error := ''ModuleNotFoundError: No module named '' @ [QUOTE] @ ''requests'' @ [QUOTE]\<rparr>"

definition plan_of_one :: ExecutionPlan where
  "plan_of_one =
     \<lparr>goal = ''demo'', steps = [failed_import], current_step = 0, completed = False,
      reflection_log = [], start_time = 0\<rparr>"

section \<open>Properties of the sandbox\<close>

subsection \<open>Unsupported languages\<close>

text \<open>
  C10. A language that, lowered and stripped, is not a key of \<open>lang_map\<close>: \<open>run\<close> returns
  (it does not raise) a result with \<open>success\<close>, \<open>blocked\<close> and \<open>timed_out\<close> false, execution
  time 0, empty output and an error text that starts with \<open>Unsupported language\<close>. The sandbox
  is returned as it was, so nothing is appended to its history, and no process is started.
\<close>

theorem run_unsupported_language:
  assumes "strip (lower language0) \<notin> set lang_map_keys"
  shows "\<exists>r. run os self code language0 spawned = (Inr r, self, spawned)
           \<and> \<not> success r \<and> \<not> blocked r \<and> \<not> timed_out r \<and> execution_time r = 0
           \<and> output_text r = [] \<and> startswith (errors r) ''Unsupported language''
           \<and> language r = strip (lower language0)"
  using assms by (simp add: run_def lang_map_keys_def Let_def new_SandboxResult_def)

theorem run_unsupported_language_witness:
  "\<exists>r. run (\<lambda>n req. Exited 0 [] [] 0)
            \<lparr>executor = \<lparr>work_dir = ''/w'', timeout = 60, max_memory_mb = 1024,
                          block_network = False, isolation_mode = ''workspace''\<rparr>,
             execution_history = []\<rparr>
            ''puts 1'' '' Ruby '' []
         = (Inr r,
            \<lparr>executor = \<lparr>work_dir = ''/w'', timeout = 60, max_memory_mb = 1024,
                          block_network = False, isolation_mode = ''workspace''\<rparr>,
             execution_history = []\<rparr>, [])
           \<and> \<not> success r \<and> \<not> blocked r \<and> \<not> timed_out r \<and> execution_time r = 0
           \<and> output_text r = [] \<and> startswith (errors r) ''Unsupported language''
           \<and> language r = ''ruby''"
proof -
  have k: "strip (lower '' Ruby '') \<notin> set lang_map_keys" by code_simp
  have e: "strip (lower '' Ruby '') = ''ruby''" by code_simp
  show ?thesis
    using run_unsupported_language [OF k, of "\<lambda>n req. Exited 0 [] [] 0" _ "''puts 1''" "[]"]
    unfolding e by blast
qed

subsection \<open>Shell commands\<close>

lemma execute_shell_raw_spawned:
  "snd (execute_shell_raw os self cmd spawned) = spawned @ [RunShell cmd]"
  by (simp add: execute_shell_raw_def start_def Let_def split: outcome.splits prod.splits)

lemma run_bash_eq:
  "strip (lower language0) = ''bash'' \<Longrightarrow>
   run os sb cmd language0 spawned =
     (Inr (fst (execute_shell os (executor sb) cmd spawned)),
      sb\<lparr>execution_history := execution_history sb
            @ [(''bash'', fst (execute_shell os (executor sb) cmd spawned))]\<rparr>,
      snd (execute_shell os (executor sb) cmd spawned))"
  by (simp add: run_def run_bash_def execute_bash_def runner_def Let_def split: prod.splits)

text \<open>
  C7. The three policies of \<open>_execute_shell\<close>, in order. A command that
  \<open>_is_system_install\<close> recognises is not executed (no process is started) and yields
  \<open>success = True\<close> with the explanatory \<open>[blocked]\<close> message. Otherwise a command that
  \<open>_is_allowed_install\<close> recognises goes straight to \<open>_execute_shell_raw\<close>, whatever the
  denylist says about it. Otherwise the command is validated: a failure gives
  \<open>blocked = True\<close>, \<open>success = False\<close> and no process, a pass gives the raw execution.
  \<open>Sandbox.run\<close> with the language \<open>bash\<close> returns that result and appends it to the
  history.
\<close>

theorem shell_policies:
  "(is_system_install cmd \<longrightarrow>
      (\<exists>r. execute_shell os self cmd spawned = (r, spawned) \<and> success r \<and> \<not> blocked r
           \<and> errors r = [] \<and> execution_time r = 0
           \<and> output_text r = ''[blocked] System package install not allowed: '' @ strip cmd
                @ [NL] @ ''Gunakan pip/npm/yarn untuk install packages.''))
   \<and> (\<not> is_system_install cmd \<and> is_allowed_install cmd \<longrightarrow>
        execute_shell os self cmd spawned
          = execute_shell_raw os self (replace cmd '' --break-system-packages'' '''') spawned
        \<and> snd (execute_shell os self cmd spawned)
          = spawned @ [RunShell (replace cmd '' --break-system-packages'' '''')])
   \<and> (\<not> is_system_install cmd \<and> \<not> is_allowed_install cmd \<and> \<not> fst (validate_bash self cmd) \<longrightarrow>
        (\<exists>r. execute_shell os self cmd spawned = (r, spawned) \<and> blocked r \<and> \<not> success r
             \<and> blocked_reason r = snd (validate_bash self cmd)))
   \<and> (\<not> is_system_install cmd \<and> \<not> is_allowed_install cmd \<and> fst (validate_bash self cmd) \<longrightarrow>
        execute_shell os self cmd spawned = execute_shell_raw os self cmd spawned
        \<and> snd (execute_shell os self cmd spawned) = spawned @ [RunShell cmd])
   \<and> (strip (lower language0) = ''bash'' \<longrightarrow>
        run os sb cmd language0 spawned =
          (Inr (fst (execute_shell os (executor sb) cmd spawned)),
           sb\<lparr>execution_history := execution_history sb
                 @ [(''bash'', fst (execute_shell os (executor sb) cmd spawned))]\<rparr>,
           snd (execute_shell os (executor sb) cmd spawned)))"
proof (intro conjI impI)
  assume "is_system_install cmd"
  then show "\<exists>r. execute_shell os self cmd spawned = (r, spawned) \<and> success r \<and> \<not> blocked r
           \<and> errors r = [] \<and> execution_time r = 0
           \<and> output_text r = ''[blocked] System package install not allowed: '' @ strip cmd
                @ [NL] @ ''Gunakan pip/npm/yarn untuk install packages.''"
    by (simp add: execute_shell_def new_SandboxResult_def)
next
  assume "\<not> is_system_install cmd \<and> is_allowed_install cmd"
  then show "execute_shell os self cmd spawned
          = execute_shell_raw os self (replace cmd '' --break-system-packages'' '''') spawned"
    by (simp add: execute_shell_def)
next
  assume "\<not> is_system_install cmd \<and> is_allowed_install cmd"
  then show "snd (execute_shell os self cmd spawned)
          = spawned @ [RunShell (replace cmd '' --break-system-packages'' '''')]"
    by (simp add: execute_shell_def execute_shell_raw_spawned)
next
  assume "\<not> is_system_install cmd \<and> \<not> is_allowed_install cmd \<and> \<not> fst (validate_bash self cmd)"
  then show "\<exists>r. execute_shell os self cmd spawned = (r, spawned) \<and> blocked r \<and> \<not> success r
             \<and> blocked_reason r = snd (validate_bash self cmd)"
    by (cases "validate_bash self cmd")
       (simp add: execute_shell_def blocked_result_def new_SandboxResult_def)
next
  assume a: "\<not> is_system_install cmd \<and> \<not> is_allowed_install cmd \<and> fst (validate_bash self cmd)"
  then show e: "execute_shell os self cmd spawned = execute_shell_raw os self cmd spawned"
    by (cases "validate_bash self cmd") (simp add: execute_shell_def)
  show "snd (execute_shell os self cmd spawned) = spawned @ [RunShell cmd]"
    by (simp add: e execute_shell_raw_spawned)
next
  assume "strip (lower language0) = ''bash''"
  then show "run os sb cmd language0 spawned =
          (Inr (fst (execute_shell os (executor sb) cmd spawned)),
           sb\<lparr>execution_history := execution_history sb
                 @ [(''bash'', fst (execute_shell os (executor sb) cmd spawned))]\<rparr>,
           snd (execute_shell os (executor sb) cmd spawned))"
    by (rule run_bash_eq)
qed

theorem shell_policies_witness:
  "run (\<lambda>n req. Exited 0 ''ok'' [] 1) sb0 ''pip install requests'' ''bash'' []
     = (Inr ((new_SandboxResult True ''ok'' [] 1 ''bash'')),
        sb0\<lparr>execution_history := [(''bash'', new_SandboxResult True ''ok'' [] 1 ''bash'')]\<rparr>,
        [RunShell ''pip install requests''])
   \<and> (\<exists>r sb'. run (\<lambda>n req. Exited 0 ''ok'' [] 1) sb0 ''apt-get install nmap'' ''bash'' []
           = (Inr r, sb', []) \<and> success r \<and> \<not> blocked r \<and> startswith (output_text r) ''[blocked]'')"
proof -
  let ?os = "\<lambda>(n::nat) (req::spawn). Exited 0 ''ok'' [] 1"
  have b: "strip (lower ''bash'') = ''bash''" by code_simp
  have p: "\<not> is_system_install ''pip install requests'' \<and> is_allowed_install ''pip install requests''"
    by code_simp
  have rp: "replace ''pip install requests'' '' --break-system-packages'' '''' = ''pip install requests''"
    by code_simp
  have a: "is_system_install ''apt-get install nmap''" by code_simp
  have t: "truncate_output ''ok'' = (''ok'', False)"
    by (simp add: truncate_output_def MAX_OUTPUT_LENGTH_def)
  have h: "execution_history sb0 = []" by (simp add: sb0_def)
  note P = shell_policies [of "''pip install requests''" ?os "executor sb0" "[]" "''bash''" sb0]
  note A = shell_policies [of "''apt-get install nmap''" ?os "executor sb0" "[]" "''bash''" sb0]
  note P2 = P [THEN conjunct2, THEN conjunct1, rule_format, OF p, THEN conjunct1]
  note P5 = P [THEN conjunct2, THEN conjunct2, THEN conjunct2, THEN conjunct2, rule_format, OF b]
  note A1 = A [THEN conjunct1, rule_format, OF a]
  note A5 = A [THEN conjunct2, THEN conjunct2, THEN conjunct2, THEN conjunct2, rule_format, OF b]
  have 1: "execute_shell ?os (executor sb0) ''pip install requests'' []
        = (new_SandboxResult True ''ok'' [] 1 ''bash'', [RunShell ''pip install requests''])"
    unfolding P2 rp by (simp add: execute_shell_raw_def start_def t new_SandboxResult_def)
  have 3: "run ?os sb0 ''pip install requests'' ''bash'' []
     = (Inr ((new_SandboxResult True ''ok'' [] 1 ''bash'')),
        sb0\<lparr>execution_history := [(''bash'', new_SandboxResult True ''ok'' [] 1 ''bash'')]\<rparr>,
        [RunShell ''pip install requests''])"
    unfolding P5 1 by (simp add: h)
  from A1 obtain r where r: "execute_shell ?os (executor sb0) ''apt-get install nmap'' [] = (r, [])"
    "success r" "\<not> blocked r"
    "output_text r = ''[blocked] System package install not allowed: '' @ strip ''apt-get install nmap''
                @ [NL] @ ''Gunakan pip/npm/yarn untuk install packages.''"
    by blast
  have s: "startswith (output_text r) ''[blocked]''" unfolding r(4) by simp
  have 4: "\<exists>r sb'. run ?os sb0 ''apt-get install nmap'' ''bash'' []
           = (Inr r, sb', []) \<and> success r \<and> \<not> blocked r \<and> startswith (output_text r) ''[blocked]''"
    unfolding A5 r(1) using r(2,3) s by simp
  show ?thesis using 3 4 by blast
qed

subsection \<open>Server code\<close>

lemma two_found:
  assumes "i < j" "j < length xs" "P (xs ! i)" "P (xs ! j)"
  shows "2 \<le> length (filter P xs)"
proof -
  have "{i, j} \<subseteq> {k. k < length xs \<and> P (xs ! k)}" using assms by auto
  moreover have "finite {k. k < length xs \<and> P (xs ! k)}" by simp
  ultimately have "card {i, j} \<le> card {k. k < length xs \<and> P (xs ! k)}"
    by (rule card_mono[rotated])
  moreover have "card {i, j} = 2" using assms(1) by simp
  ultimately show ?thesis by (simp add: length_filter_conv_card)
qed

lemma indicators_need_text: "list_all (\<lambda>p. \<not> re_found p []) server_indicators"
  by code_simp

lemma server_code_nonempty:
  assumes "2 \<le> length (filter (\<lambda>p. re_found p code) server_indicators)"
  shows "code \<noteq> []"
proof
  assume "code = []"
  with indicators_need_text have "filter (\<lambda>p. re_found p code) server_indicators = []"
    by (simp add: filter_empty_conv list_all_iff)
  with assms show False by simp
qed

lemma run_python_server:
  assumes "strip (lower language0) = ''python''"
    and "2 \<le> length (filter (\<lambda>p. re_found p code) server_indicators)"
  shows "run os sb code language0 spawned =
           (Inr (server_code_result ''python''),
            sb\<lparr>execution_history := execution_history sb
                  @ [(''python'', server_code_result ''python'')]\<rparr>,
            spawned)"
  using assms server_code_nonempty [OF assms(2)]
  by (simp add: run_def run_python_def execute_python_def execute_code_def is_server_code_def
      runner_def Let_def)

lemma import_and_start:
  assumes "p \<in> set framework_imports" "q \<in> set server_start_calls"
    "re_found p code" "re_found q code"
  shows "2 \<le> length (filter (\<lambda>p. re_found p code) server_indicators)"
proof -
  have len: "length server_indicators = 10" by (simp add: server_indicators_def)
  from assms(1) obtain i where i: "i < 4" "p = server_indicators ! i"
    unfolding framework_imports_def by (auto simp: in_set_conv_nth len)
  from assms(2) have "q = server_indicators ! 6 \<or> q = server_indicators ! 7"
    by (simp add: server_start_calls_def)
  then obtain j where j: "j = 6 \<or> j = 7" "q = server_indicators ! j" by blast
  have "i < j" "j < length server_indicators" using i j len by auto
  then show ?thesis using two_found [of i j server_indicators "\<lambda>p. re_found p code"] assms i j
    by simp
qed

text \<open>
  C6. A python snippet in which at least two of the ten server indicators are found is
  never executed: \<open>run\<close> starts no process and returns at once the synthetic result, which
  has \<open>success = True\<close>, empty \<open>errors\<close> and execution time 0. In particular this is so
  for a snippet with a web-framework import and a server-start call among the indicators
  (\<open>app.run(\<close> or \<open>uvicorn.run(\<close>).
\<close>

theorem server_code_never_executed:
  "(strip (lower language0) = ''python''
      \<and> 2 \<le> length (filter (\<lambda>p. re_found p code) server_indicators)
    \<longrightarrow> run os sb code language0 spawned =
           (Inr (server_code_result ''python''),
            sb\<lparr>execution_history := execution_history sb
                  @ [(''python'', server_code_result ''python'')]\<rparr>,
            spawned))
   \<and> (strip (lower language0) = ''python''
        \<and> (\<exists>p \<in> set framework_imports. re_found p code)
        \<and> (\<exists>q \<in> set server_start_calls. re_found q code)
      \<longrightarrow> (\<exists>r. fst (run os sb code language0 spawned) = Inr r \<and> success r)
          \<and> snd (snd (run os sb code language0 spawned)) = spawned)
   \<and> success (server_code_result ''python'')
   \<and> errors (server_code_result ''python'') = []
   \<and> execution_time (server_code_result ''python'') = 0
   \<and> \<not> blocked (server_code_result ''python'')"
proof (intro conjI impI)
  assume "strip (lower language0) = ''python''
      \<and> 2 \<le> length (filter (\<lambda>p. re_found p code) server_indicators)"
  then show "run os sb code language0 spawned =
           (Inr (server_code_result ''python''),
            sb\<lparr>execution_history := execution_history sb
                  @ [(''python'', server_code_result ''python'')]\<rparr>,
            spawned)"
    by (simp add: run_python_server)
next
  assume a: "strip (lower language0) = ''python''
        \<and> (\<exists>p \<in> set framework_imports. re_found p code)
        \<and> (\<exists>q \<in> set server_start_calls. re_found q code)"
  then have "2 \<le> length (filter (\<lambda>p. re_found p code) server_indicators)"
    using import_and_start by blast
  with a have e: "run os sb code language0 spawned =
           (Inr (server_code_result ''python''),
            sb\<lparr>execution_history := execution_history sb
                  @ [(''python'', server_code_result ''python'')]\<rparr>,
            spawned)"
    by (simp add: run_python_server)
  show "\<exists>r. fst (run os sb code language0 spawned) = Inr r \<and> success r"
    by (simp add: e server_code_result_def new_SandboxResult_def)
  show "snd (snd (run os sb code language0 spawned)) = spawned"
    by (simp add: e)
qed (simp_all add: server_code_result_def new_SandboxResult_def)

theorem server_code_never_executed_witness:
  "run (\<lambda>n req. Exited 1 [] ''boom'' 1) sb0 flask_app ''python'' []
     = (Inr (server_code_result ''python''),
        sb0\<lparr>execution_history := [(''python'', server_code_result ''python'')]\<rparr>, [])
   \<and> success (server_code_result ''python'')"
proof -
  have l: "strip (lower ''python'') = ''python''" by code_simp
  have c: "2 \<le> length (filter (\<lambda>p. re_found p flask_app) server_indicators)" by code_simp
  have h: "execution_history sb0 = []" by (simp add: sb0_def)
  note T = server_code_never_executed [of "''python''" flask_app "\<lambda>n req. Exited 1 [] ''boom'' 1" sb0 "[]"]
  show ?thesis
    using T [THEN conjunct1, rule_format, OF conjI [OF l c]] T [THEN conjunct2, THEN conjunct2, THEN conjunct1]
    by (simp add: h)
qed

subsection \<open>Decimal numerals\<close>

lemma digit_value_digit_char: "d < 10 \<Longrightarrow> digit_value (digit_char d) = d"
proof -
  assume "d < 10"
  then have "d \<in> {0, 1, 2, 3, 4, 5, 6, 7, 8, 9}" by auto
  then show ?thesis
    by (auto simp: digit_value_def digit_char_def)
qed

lemma read_nat_snoc: "read_nat (s @ [c]) = 10 * read_nat s + digit_value c"
  by (simp add: read_nat_def)

lemma read_nat_str_nat: "read_nat (str_nat n) = n"
proof (induction n rule: str_nat.induct)
  case (1 n)
  show ?case
  proof (cases "n < 10")
    case True
    then show ?thesis
      by (subst str_nat.simps) (simp add: read_nat_def digit_value_digit_char)
  next
    case False
    then have "read_nat (str_nat (n div 10)) = n div 10" using 1 by simp
    with False show ?thesis
      by (subst str_nat.simps) (simp add: read_nat_snoc digit_value_digit_char)
  qed
qed

lemma str_nat_inj: "str_nat m = str_nat n \<Longrightarrow> m = n"
  by (metis read_nat_str_nat)

subsection \<open>The cap on the output\<close>

lemma truncate_output_short:
  "length text \<le> 50000 \<Longrightarrow> truncate_output text = (text, False)"
  by (simp add: truncate_output_def MAX_OUTPUT_LENGTH_def)

lemma truncate_output_long:
  "50000 < length text \<Longrightarrow>
   truncate_output text =
     (take 50000 text @ [NL, NL] @ ''... [output truncated, ''
      @ str_nat (length text - 50000) @ '' chars omitted]'', True)"
  by (simp add: truncate_output_def MAX_OUTPUT_LENGTH_def)

text \<open>
  C8, as the code has it. Only the stdout of a process that exited within the timeout goes
  through the cap: the \<open>output\<close> field is the stdout itself up to 50,000 characters, and
  beyond that its first 50,000 characters followed by the note with the number of
  characters left out (a decimal numeral that reads back as the length minus 50,000), and
  \<open>truncated\<close> says which. The stderr is returned whole in \<open>errors\<close> whatever its length, and
  on a timeout the stdout is returned whole with \<open>truncated = False\<close>. This holds for code
  run from a file and for shell commands.
\<close>

theorem stdout_capped_stderr_whole:
  "(os (length spawned) (RunFile (command config) (extension config) code) = Exited rc out err t
      \<longrightarrow> (\<exists>r. fst (run_code_subprocess os self code lang config spawned) = Inr r
             \<and> output_text r = fst (truncate_output out)
             \<and> truncated r = (50000 < length out) \<and> errors r = err))
   \<and> (os (length spawned) (RunFile (command config) (extension config) code) = TimedOut out t
      \<longrightarrow> (\<exists>r. fst (run_code_subprocess os self code lang config spawned) = Inr r
             \<and> output_text r = out \<and> \<not> truncated r \<and> timed_out r))
   \<and> (os (length spawned) (RunShell cmd) = Exited rc out err t
      \<longrightarrow> output_text (fst (execute_shell_raw os self cmd spawned)) = fst (truncate_output out)
          \<and> truncated (fst (execute_shell_raw os self cmd spawned)) = (50000 < length out)
          \<and> errors (fst (execute_shell_raw os self cmd spawned)) = err)
   \<and> (os (length spawned) (RunShell cmd) = TimedOut out t
      \<longrightarrow> output_text (fst (execute_shell_raw os self cmd spawned)) = out
          \<and> \<not> truncated (fst (execute_shell_raw os self cmd spawned)))
   \<and> (length s \<le> 50000 \<longrightarrow> truncate_output s = (s, False))
   \<and> (50000 < length s \<longrightarrow>
        truncate_output s =
          (take 50000 s @ [NL, NL] @ ''... [output truncated, ''
           @ str_nat (length s - 50000) @ '' chars omitted]'', True)
        \<and> read_nat (str_nat (length s - 50000)) = length s - 50000)"
proof (intro conjI impI)
  assume "os (length spawned) (RunFile (command config) (extension config) code) = Exited rc out err t"
  then show "\<exists>r. fst (run_code_subprocess os self code lang config spawned) = Inr r
             \<and> output_text r = fst (truncate_output out)
             \<and> truncated r = (50000 < length out) \<and> errors r = err"
    by (simp add: run_code_subprocess_def start_def new_SandboxResult_def truncate_output_def
        MAX_OUTPUT_LENGTH_def)
next
  assume "os (length spawned) (RunFile (command config) (extension config) code) = TimedOut out t"
  then show "\<exists>r. fst (run_code_subprocess os self code lang config spawned) = Inr r
             \<and> output_text r = out \<and> \<not> truncated r \<and> timed_out r"
    by (simp add: run_code_subprocess_def start_def new_SandboxResult_def)
next
  assume a: "os (length spawned) (RunShell cmd) = Exited rc out err t"
  then show "output_text (fst (execute_shell_raw os self cmd spawned)) = fst (truncate_output out)"
    by (simp add: execute_shell_raw_def start_def new_SandboxResult_def truncate_output_def
        MAX_OUTPUT_LENGTH_def)
  from a show "truncated (fst (execute_shell_raw os self cmd spawned)) = (50000 < length out)"
    by (simp add: execute_shell_raw_def start_def new_SandboxResult_def truncate_output_def
        MAX_OUTPUT_LENGTH_def)
  from a show "errors (fst (execute_shell_raw os self cmd spawned)) = err"
    by (simp add: execute_shell_raw_def start_def new_SandboxResult_def truncate_output_def
        MAX_OUTPUT_LENGTH_def)
next
  assume a: "os (length spawned) (RunShell cmd) = TimedOut out t"
  then show "output_text (fst (execute_shell_raw os self cmd spawned)) = out"
    by (simp add: execute_shell_raw_def start_def new_SandboxResult_def)
  from a show "\<not> truncated (fst (execute_shell_raw os self cmd spawned))"
    by (simp add: execute_shell_raw_def start_def new_SandboxResult_def)
next
  assume "length s \<le> 50000"
  then show "truncate_output s = (s, False)" by (rule truncate_output_short)
next
  assume "50000 < length s"
  then show "truncate_output s =
          (take 50000 s @ [NL, NL] @ ''... [output truncated, ''
           @ str_nat (length s - 50000) @ '' chars omitted]'', True)"
    by (rule truncate_output_long)
  show "read_nat (str_nat (length s - 50000)) = length s - 50000"
    by (rule read_nat_str_nat)
qed

theorem stdout_capped_stderr_whole_witness:
  "truncate_output long_text =
     (replicate 50000 (CHR ''e'') @ [NL, NL] @ ''... [output truncated, 1 chars omitted]'', True)
   \<and> output_text (fst (execute_shell_raw (\<lambda>n req. Exited 0 long_text long_text 1)
                         (executor sb0) ''yes'' []))
       = replicate 50000 (CHR ''e'') @ [NL, NL] @ ''... [output truncated, 1 chars omitted]''
   \<and> truncated (fst (execute_shell_raw (\<lambda>n req. Exited 0 long_text long_text 1)
                         (executor sb0) ''yes'' []))
   \<and> errors (fst (execute_shell_raw (\<lambda>n req. Exited 0 long_text long_text 1)
                         (executor sb0) ''yes'' [])) = long_text"
proof -
  let ?os = "\<lambda>(n::nat) (req::spawn). Exited 0 long_text long_text 1"
  have len: "length long_text = 50001" by (simp add: long_text_def)
  have tk: "take 50000 long_text = replicate 50000 (CHR ''e'')" by (simp add: long_text_def)
  have one: "str_nat (Suc 0) = ''1''" by (subst str_nat.simps) (simp add: digit_char_def)
  note T = stdout_capped_stderr_whole [where os = "?os" and spawned = "[]" and rc = 0
      and out = long_text and err = long_text and t = 1 and cmd = "''yes''" and s = long_text]
  have l: "50000 < length long_text" by (simp add: len)
  have a: "truncate_output long_text =
     (replicate 50000 (CHR ''e'') @ [NL, NL] @ ''... [output truncated, 1 chars omitted]'', True)"
    using T [THEN conjunct2, THEN conjunct2, THEN conjunct2, THEN conjunct2, THEN conjunct2,
        rule_format, OF l, THEN conjunct1]
    by (simp add: len tk one)
  have b: "output_text (fst (execute_shell_raw ?os (executor sb0) ''yes'' [])) = fst (truncate_output long_text)
     \<and> truncated (fst (execute_shell_raw ?os (executor sb0) ''yes'' [])) = (50000 < length long_text)
     \<and> errors (fst (execute_shell_raw ?os (executor sb0) ''yes'' [])) = long_text"
    using T [THEN conjunct2, THEN conjunct2, THEN conjunct1, rule_format, where self = "executor sb0"] by simp
  show ?thesis using a b l by simp
qed

text \<open>
  The claim as stated fails for stderr: a run that exits with 50,001 characters on stderr
  returns all of them in \<open>errors\<close>, with \<open>truncated = False\<close>.
\<close>

theorem stderr_capped_counterexample:
  "run (\<lambda>n req. Exited 0 [] long_text 1) sb0 ''x = 1'' ''python'' []
     = (Inr (new_SandboxResult True [] long_text 1 ''python''),
        sb0\<lparr>execution_history := [(''python'', new_SandboxResult True [] long_text 1 ''python'')]\<rparr>,
        [RunFile [''python3''] ''.py'' ''x = 1''])
   \<and> errors (new_SandboxResult True [] long_text 1 ''python'') = long_text
   \<and> length long_text = 50001
   \<and> \<not> truncated (new_SandboxResult True [] long_text 1 ''python'')"
proof -
  have l: "strip (lower ''python'') = ''python''" by code_simp
  have a: "is_server_code ''x = 1'' = False" by code_simp
  have b: "strip_server_start ''x = 1'' ''python'' = ''x = 1''" by code_simp
  have c: "validate_code (executor sb0) ''x = 1'' ''python'' = (True, '''')" by code_simp
  have h: "execution_history sb0 = []" by (simp add: sb0_def)
  have t: "truncate_output [] = ([], False)"
    by (simp add: truncate_output_def MAX_OUTPUT_LENGTH_def)
  have r: "run (\<lambda>n req. Exited 0 [] long_text 1) sb0 ''x = 1'' ''python'' []
     = (Inr (new_SandboxResult True [] long_text 1 ''python''),
        sb0\<lparr>execution_history := [(''python'', new_SandboxResult True [] long_text 1 ''python'')]\<rparr>,
        [RunFile [''python3''] ''.py'' ''x = 1''])"
    by (simp add: run_def l run_python_def execute_python_def execute_code_def a b c h t
        LANGUAGE_CONFIG_def run_code_subprocess_def start_def runner_def new_SandboxResult_def
        Let_def)
  show ?thesis
    by (simp add: r) (simp add: new_SandboxResult_def long_text_def)
qed

section \<open>Properties of the plan\<close>

subsection \<open>Recording failures\<close>

lemma record_failure_eq:
  "record_failure step err =
     step\<lparr>attempts := attempts step + 1,
          status := (if max_attempts step \<le> attempts step + 1 then ''failed'' else ''pending''),
          error := err\<rparr>"
  by (simp add: record_failure_def Let_def)

lemma reflect_step_failure: "fst (reflect_step step err False) = record_failure step err"
  by (simp add: reflect_step_def record_failure_def Let_def)

lemma foldl_record_failure:
  "attempts (foldl record_failure step errs) = attempts step + int (length errs)
   \<and> max_attempts (foldl record_failure step errs) = max_attempts step
   \<and> (errs \<noteq> [] \<longrightarrow>
        status (foldl record_failure step errs)
          = (if max_attempts step \<le> attempts step + int (length errs) then ''failed''
             else ''pending'')
        \<and> error (foldl record_failure step errs) = last errs)"
proof (induction errs rule: rev_induct)
  case Nil
  show ?case by simp
next
  case (snoc e errs)
  then show ?case by (simp add: record_failure_eq)
qed

lemma mark_failed_steps_first:
  "step_id step = sid \<Longrightarrow> sid \<notin> step_id ` set pre \<Longrightarrow>
   mark_failed_steps (pre @ step # post) sid err = pre @ record_failure step err # post"
  by (induction pre) auto

lemma mark_failed_steps_absent:
  "sid \<notin> step_id ` set xs \<Longrightarrow> mark_failed_steps xs sid err = xs"
  by (induction xs) auto

lemma scan_steps_pending:
  "scan_steps all_steps xs k = Some i \<Longrightarrow>
   k \<le> i \<and> i - k < length xs \<and> status (xs ! (i - k)) = ''pending''"
proof (induction xs arbitrary: k)
  case Nil
  then show ?case by simp
next
  case (Cons x xs)
  show ?case
  proof (cases "status x = ''pending'' \<and> deps_met all_steps (dependencies x)")
    case True
    with Cons.prems show ?thesis by simp
  next
    case False
    with Cons.prems have s: "scan_steps all_steps xs (Suc k) = Some i" by auto
    from Cons.IH [OF s] have a: "Suc k \<le> i" "i - Suc k < length xs"
      "status (xs ! (i - Suc k)) = ''pending''" by auto
    then have "i - k = Suc (i - Suc k)" by simp
    with a show ?thesis by simp
  qed
qed

lemma get_next_step_pending: "get_next_step plan = Some s \<Longrightarrow> status s = ''pending''"
  using scan_steps_pending [of "steps plan" "steps plan" 0]
  by (auto simp: get_next_step_def next_step_index_def)

text \<open>
  C4. A failure recorded by \<open>mark_step_failed\<close> or by the failure branch of \<open>reflect\<close> adds
  one to \<open>attempts\<close> and stores the error; the status becomes \<open>failed\<close> when the new count has
  reached \<open>max_attempts\<close> and \<open>pending\<close> otherwise. \<open>mark_step_failed\<close> does this to the first
  step with the given id and changes nothing else. So on a fresh step, after one or more
  failures the status is \<open>failed\<close> exactly when their number has reached \<open>max_attempts\<close>, and
  after exactly \<open>max_attempts\<close> failures it is \<open>failed\<close>; the last error is kept. A failed step
  gets no further attempt: \<open>get_next_step\<close> returns pending steps only.
\<close>

theorem failures_until_max_attempts:
  "record_failure step err =
     step\<lparr>attempts := attempts step + 1,
          status := (if max_attempts step \<le> attempts step + 1 then ''failed'' else ''pending''),
          error := err\<rparr>
   \<and> fst (reflect_step step err False) = record_failure step err
   \<and> (step_id step = sid \<and> sid \<notin> step_id ` set pre \<longrightarrow>
        steps (mark_step_failed (plan\<lparr>steps := pre @ step # post\<rparr>) sid err)
          = pre @ record_failure step err # post)
   \<and> (attempts step = 0 \<and> errs \<noteq> [] \<longrightarrow>
        status (foldl record_failure step errs)
          = (if max_attempts step \<le> int (length errs) then ''failed'' else ''pending'')
        \<and> attempts (foldl record_failure step errs) = int (length errs)
        \<and> error (foldl record_failure step errs) = last errs)
   \<and> (attempts step = 0 \<and> errs \<noteq> [] \<and> int (length errs) = max_attempts step \<longrightarrow>
        status (foldl record_failure step errs) = ''failed'')
   \<and> (get_next_step plan = Some s \<longrightarrow> status s \<noteq> ''failed'')"
proof (intro conjI impI)
  show "record_failure step err =
     step\<lparr>attempts := attempts step + 1,
          status := (if max_attempts step \<le> attempts step + 1 then ''failed'' else ''pending''),
          error := err\<rparr>"
    by (rule record_failure_eq)
  show "fst (reflect_step step err False) = record_failure step err"
    by (rule reflect_step_failure)
next
  assume "step_id step = sid \<and> sid \<notin> step_id ` set pre"
  then show "steps (mark_step_failed (plan\<lparr>steps := pre @ step # post\<rparr>) sid err)
          = pre @ record_failure step err # post"
    by (simp add: mark_step_failed_def mark_failed_steps_first)
next
  assume a: "attempts step = 0 \<and> errs \<noteq> []"
  with foldl_record_failure [of step errs]
  show "status (foldl record_failure step errs)
          = (if max_attempts step \<le> int (length errs) then ''failed'' else ''pending'')"
    by simp
  from a foldl_record_failure [of step errs]
  show "attempts (foldl record_failure step errs) = int (length errs)" by simp
  from a foldl_record_failure [of step errs]
  show "error (foldl record_failure step errs) = last errs" by simp
next
  assume a: "attempts step = 0 \<and> errs \<noteq> [] \<and> int (length errs) = max_attempts step"
  with foldl_record_failure [of step errs]
  show "status (foldl record_failure step errs) = ''failed''" by simp
next
  assume "get_next_step plan = Some s"
  then have "status s = ''pending''" by (rule get_next_step_pending)
  then show "status s \<noteq> ''failed''" by simp
qed

theorem failures_until_max_attempts_witness:
  "status (foldl record_failure step0 [''e1'', ''e2'']) = ''pending''
   \<and> status (foldl record_failure step0 [''e1'', ''e2'', ''e3'']) = ''failed''
   \<and> attempts (foldl record_failure step0 [''e1'', ''e2'', ''e3'']) = 3
   \<and> error (foldl record_failure step0 [''e1'', ''e2'', ''e3'']) = ''e3''"
proof -
  have a: "attempts step0 = 0" and m: "max_attempts step0 = 3"
    by (simp_all add: step0_def new_TaskStep_def)
  note T2 = failures_until_max_attempts [where step = step0 and errs = "[''e1'', ''e2'']"]
  note T3 = failures_until_max_attempts [where step = step0 and errs = "[''e1'', ''e2'', ''e3'']"]
  have 2: "status (foldl record_failure step0 [''e1'', ''e2'']) = ''pending''"
    using T2 [THEN conjunct2, THEN conjunct2, THEN conjunct2, THEN conjunct1] a m by simp
  have 3: "status (foldl record_failure step0 [''e1'', ''e2'', ''e3'']) = ''failed''
      \<and> attempts (foldl record_failure step0 [''e1'', ''e2'', ''e3'']) = 3
      \<and> error (foldl record_failure step0 [''e1'', ''e2'', ''e3'']) = ''e3''"
    using T3 [THEN conjunct2, THEN conjunct2, THEN conjunct2, THEN conjunct1] a m by simp
  show ?thesis using 2 3 by simp
qed

subsection \<open>The next step\<close>

lemma str_nat_digits: "set (str_nat n) \<subseteq> set ''0123456789''"
proof (induction n rule: str_nat.induct)
  case (1 n)
  have d: "\<And>k. k < 10 \<Longrightarrow> digit_char k \<in> set ''0123456789''"
    unfolding digit_char_def by (rule nth_mem) simp
  show ?case
  proof (cases "n < 10")
    case True
    then show ?thesis using d [of n] by (subst str_nat.simps) simp
  next
    case False
    then have "set (str_nat (n div 10)) \<subseteq> set ''0123456789''" using 1 by simp
    with False d [of "n mod 10"] show ?thesis by (subst str_nat.simps) simp
  qed
qed

lemma str_nat_nonempty: "str_nat n \<noteq> []"
  by (subst str_nat.simps) simp

lemma str_nat_no_minus: "hd (str_nat n) \<noteq> CHR ''-''"
proof -
  have "hd (str_nat n) \<in> set (str_nat n)" using str_nat_nonempty by simp
  then have "hd (str_nat n) \<in> set ''0123456789''" using str_nat_digits by blast
  then show ?thesis by auto
qed

lemma str_int_inj: "str_int i = str_int j \<Longrightarrow> i = j"
proof -
  assume e: "str_int i = str_int j"
  consider "i < 0" "j < 0" | "i < 0" "\<not> j < 0" | "\<not> i < 0" "j < 0" | "\<not> i < 0" "\<not> j < 0"
    by blast
  then show ?thesis
  proof cases
    case 1
    with e have "str_nat (nat (- i)) = str_nat (nat (- j))" by (simp add: str_int_def)
    then have "nat (- i) = nat (- j)" by (rule str_nat_inj)
    with 1 show ?thesis by simp
  next
    case 2
    with e have "CHR ''-'' # str_nat (nat (- i)) = str_nat (nat j)" by (simp add: str_int_def)
    then have "hd (str_nat (nat j)) = CHR ''-''" by (metis list.sel(1))
    with str_nat_no_minus show ?thesis by blast
  next
    case 3
    with e have "str_nat (nat i) = CHR ''-'' # str_nat (nat (- j))" by (simp add: str_int_def)
    then have "hd (str_nat (nat i)) = CHR ''-''" by simp
    with str_nat_no_minus show ?thesis by blast
  next
    case 4
    with e have "str_nat (nat i) = str_nat (nat j)" by (simp add: str_int_def)
    then have "nat i = nat j" by (rule str_nat_inj)
    with 4 show ?thesis by simp
  qed
qed

lemma find_dep_step_unique:
  assumes "distinct (map step_id all_steps)" "t \<in> set all_steps" "str_int (step_id t) = d"
  shows "find_dep_step all_steps d = Some t"
proof -
  from assms(2) obtain i where i: "i < length all_steps" "all_steps ! i = t"
    by (auto simp: in_set_conv_nth)
  have "\<And>j. j < i \<Longrightarrow> str_int (step_id (all_steps ! j)) \<noteq> d"
  proof
    fix j assume j: "j < i" and "str_int (step_id (all_steps ! j)) = d"
    with assms(3) i have "step_id (all_steps ! j) = step_id (all_steps ! i)"
      using str_int_inj by auto
    then have "map step_id all_steps ! j = map step_id all_steps ! i" using i j by simp
    moreover have "j < length (map step_id all_steps)" "i < length (map step_id all_steps)"
      using i j by simp_all
    ultimately have "j = i" using assms(1) nth_eq_iff_index_eq by blast
    with j show False by simp
  qed
  with i assms(3) show ?thesis
    unfolding find_dep_step_def find_Some_iff by blast
qed

lemma find_dep_step_none:
  "find_dep_step all_steps d = None \<longleftrightarrow> (\<forall>t \<in> set all_steps. str_int (step_id t) \<noteq> d)"
  by (auto simp: find_dep_step_def find_None_iff)

lemma deps_met_iff:
  assumes "distinct (map step_id all_steps)"
  shows "deps_met all_steps deps \<longleftrightarrow>
         (\<forall>d \<in> set deps.
            (\<forall>t \<in> set all_steps. str_int (step_id t) \<noteq> d)
            \<or> (\<exists>t \<in> set all_steps. str_int (step_id t) = d \<and> status t = ''completed''))"
proof (induction deps)
  case Nil
  show ?case by simp
next
  case (Cons d deps)
  show ?case
  proof (cases "find_dep_step all_steps d")
    case None
    then show ?thesis using Cons find_dep_step_none [of all_steps d] by simp
  next
    case (Some t)
    then have t: "t \<in> set all_steps" "str_int (step_id t) = d"
      by (auto simp: find_dep_step_def find_Some_iff)
    have u: "\<And>t'. t' \<in> set all_steps \<Longrightarrow> str_int (step_id t') = d \<Longrightarrow> t' = t"
      using find_dep_step_unique [OF assms] Some by fastforce
    have "((\<forall>t \<in> set all_steps. str_int (step_id t) \<noteq> d)
            \<or> (\<exists>t \<in> set all_steps. str_int (step_id t) = d \<and> status t = ''completed''))
          \<longleftrightarrow> status t = ''completed''"
      using t u by blast
    with Some Cons show ?thesis by simp
  qed
qed

lemma scan_steps_some:
  "scan_steps all_steps xs k = Some i \<longleftrightarrow>
   (\<exists>m < length xs. i = k + m
      \<and> (status (xs ! m) = ''pending'' \<and> deps_met all_steps (dependencies (xs ! m)))
      \<and> (\<forall>j < m. \<not> (status (xs ! j) = ''pending'' \<and> deps_met all_steps (dependencies (xs ! j)))))"
proof (induction xs arbitrary: k)
  case Nil
  show ?case by simp
next
  case (Cons x xs)
  let ?P = "\<lambda>s. status s = ''pending'' \<and> deps_met all_steps (dependencies s)"
  show ?case
  proof (cases "?P x")
    case True
    have "(\<exists>m < length (x # xs). i = k + m \<and> ?P ((x # xs) ! m) \<and> (\<forall>j < m. \<not> ?P ((x # xs) ! j)))
          \<longleftrightarrow> i = k"
    proof
      assume "\<exists>m < length (x # xs). i = k + m \<and> ?P ((x # xs) ! m) \<and> (\<forall>j < m. \<not> ?P ((x # xs) ! j))"
      then obtain m where m: "i = k + m" "\<forall>j < m. \<not> ?P ((x # xs) ! j)" by blast
      have "m = 0"
      proof (rule ccontr)
        assume "m \<noteq> 0"
        then have "0 < m" by simp
        with m(2) have "\<not> ?P ((x # xs) ! 0)" by blast
        with True show False by simp
      qed
      with m show "i = k" by simp
    next
      assume "i = k"
      with True show "\<exists>m < length (x # xs). i = k + m \<and> ?P ((x # xs) ! m)
          \<and> (\<forall>j < m. \<not> ?P ((x # xs) ! j))"
        by (intro exI [of _ 0]) simp
    qed
    with True show ?thesis by auto
  next
    case False
    have "(\<exists>m < length (x # xs). i = k + m \<and> ?P ((x # xs) ! m) \<and> (\<forall>j < m. \<not> ?P ((x # xs) ! j)))
          \<longleftrightarrow> (\<exists>m < length xs. i = Suc k + m \<and> ?P (xs ! m) \<and> (\<forall>j < m. \<not> ?P (xs ! j)))"
    proof
      assume "\<exists>m < length (x # xs). i = k + m \<and> ?P ((x # xs) ! m) \<and> (\<forall>j < m. \<not> ?P ((x # xs) ! j))"
      then obtain m where m: "m < length (x # xs)" "i = k + m" "?P ((x # xs) ! m)"
        "\<forall>j < m. \<not> ?P ((x # xs) ! j)" by blast
      with False obtain m' where m': "m = Suc m'" by (cases m) auto
      have "\<forall>j < m'. \<not> ?P (xs ! j)"
      proof (intro allI impI)
        fix j assume "j < m'"
        then have "Suc j < m" using m' by simp
        with m(4) have "\<not> ?P ((x # xs) ! Suc j)" by blast
        then show "\<not> ?P (xs ! j)" by simp
      qed
      with m m' show "\<exists>m < length xs. i = Suc k + m \<and> ?P (xs ! m) \<and> (\<forall>j < m. \<not> ?P (xs ! j))"
        by (intro exI [of _ m']) simp
    next
      assume "\<exists>m < length xs. i = Suc k + m \<and> ?P (xs ! m) \<and> (\<forall>j < m. \<not> ?P (xs ! j))"
      then obtain m where m: "m < length xs" "i = Suc k + m" "?P (xs ! m)"
        "\<forall>j < m. \<not> ?P (xs ! j)" by blast
      have "\<forall>j < Suc m. \<not> ?P ((x # xs) ! j)"
      proof (intro allI impI)
        fix j assume j: "j < Suc m"
        show "\<not> ?P ((x # xs) ! j)"
        proof (cases j)
          case 0
          with False show ?thesis by simp
        next
          case (Suc j')
          with j m(4) show ?thesis by simp
        qed
      qed
      with m show "\<exists>m < length (x # xs). i = k + m \<and> ?P ((x # xs) ! m)
          \<and> (\<forall>j < m. \<not> ?P ((x # xs) ! j))"
        by (intro exI [of _ "Suc m"]) simp
    qed
    moreover have "scan_steps all_steps (x # xs) k = scan_steps all_steps xs (Suc k)"
      using False by auto
    ultimately show ?thesis using Cons.IH [of "Suc k"] by simp
  qed
qed

lemma ready_by_spec_iff:
  assumes "distinct (map step_id (steps plan))"
  shows "ready_by_spec plan s \<longleftrightarrow>
         (status s = ''pending'' \<and> deps_met (steps plan) (dependencies s))"
  using deps_met_iff [OF assms] by (simp add: ready_by_spec_def)

lemma next_step_index_some:
  assumes "distinct (map step_id (steps plan))"
  shows "next_step_index plan = Some i \<longleftrightarrow>
         (i < length (steps plan) \<and> ready_by_spec plan (steps plan ! i)
          \<and> (\<forall>j < i. \<not> ready_by_spec plan (steps plan ! j)))"
  unfolding next_step_index_def scan_steps_some ready_by_spec_iff [OF assms] by auto

lemma next_step_index_none:
  assumes "distinct (map step_id (steps plan))"
  shows "next_step_index plan = None \<longleftrightarrow>
         (\<forall>i < length (steps plan). \<not> ready_by_spec plan (steps plan ! i))"
proof
  assume n: "next_step_index plan = None"
  show "\<forall>i < length (steps plan). \<not> ready_by_spec plan (steps plan ! i)"
  proof (rule ccontr)
    assume "\<not> (\<forall>i < length (steps plan). \<not> ready_by_spec plan (steps plan ! i))"
    then have ex: "\<exists>i. i < length (steps plan) \<and> ready_by_spec plan (steps plan ! i)" by blast
    define i where "i = (LEAST i. i < length (steps plan) \<and> ready_by_spec plan (steps plan ! i))"
    have 1: "i < length (steps plan) \<and> ready_by_spec plan (steps plan ! i)"
      unfolding i_def using ex by (rule LeastI_ex)
    have 2: "\<forall>j < i. \<not> ready_by_spec plan (steps plan ! j)"
    proof (intro allI impI)
      fix j assume j: "j < i"
      show "\<not> ready_by_spec plan (steps plan ! j)"
      proof
        assume "ready_by_spec plan (steps plan ! j)"
        with j 1 have "j < length (steps plan) \<and> ready_by_spec plan (steps plan ! j)" by simp
        then have "i \<le> j" unfolding i_def by (rule Least_le)
        with j show False by simp
      qed
    qed
    from 1 2 have "next_step_index plan = Some i"
      using next_step_index_some [OF assms] by blast
    with n show False by simp
  qed
next
  assume a: "\<forall>i < length (steps plan). \<not> ready_by_spec plan (steps plan ! i)"
  show "next_step_index plan = None"
  proof (cases "next_step_index plan")
    case None
    then show ?thesis .
  next
    case (Some i)
    then have "i < length (steps plan) \<and> ready_by_spec plan (steps plan ! i)"
      using next_step_index_some [OF assms] by blast
    with a show ?thesis by blast
  qed
qed

text \<open>
  C3. In a plan whose step ids are unique, \<open>get_next_step\<close> returns the first step, in
  plan order, that is ready in the words of the specification (pending, and every
  dependency id either names no step of the plan or names a completed step), and it returns
  none exactly when no step is ready. In particular the step it returns has no dependency
  id that names a step of the plan which is not completed.
\<close>

theorem get_next_step_first_ready:
  assumes "distinct (map step_id (steps plan))"
  shows "(get_next_step plan = Some s \<longleftrightarrow>
           (\<exists>i < length (steps plan). s = steps plan ! i \<and> ready_by_spec plan (steps plan ! i)
              \<and> (\<forall>j < i. \<not> ready_by_spec plan (steps plan ! j))))
       \<and> (get_next_step plan = None \<longleftrightarrow>
           (\<forall>i < length (steps plan). \<not> ready_by_spec plan (steps plan ! i)))
       \<and> (get_next_step plan = Some s \<longrightarrow>
           \<not> (\<exists>d \<in> set (dependencies s). \<exists>t \<in> set (steps plan).
                 str_int (step_id t) = d \<and> status t \<noteq> ''completed''))"
proof (intro conjI)
  show 1: "get_next_step plan = Some s \<longleftrightarrow>
           (\<exists>i < length (steps plan). s = steps plan ! i \<and> ready_by_spec plan (steps plan ! i)
              \<and> (\<forall>j < i. \<not> ready_by_spec plan (steps plan ! j)))"
  proof -
    have "get_next_step plan = Some s \<longleftrightarrow> (\<exists>i. next_step_index plan = Some i \<and> s = steps plan ! i)"
      unfolding get_next_step_def by (cases "next_step_index plan") auto
    then show ?thesis using next_step_index_some [OF assms] by blast
  qed
  show "get_next_step plan = None \<longleftrightarrow>
           (\<forall>i < length (steps plan). \<not> ready_by_spec plan (steps plan ! i))"
    unfolding get_next_step_def using next_step_index_none [OF assms] by simp
  show "get_next_step plan = Some s \<longrightarrow>
           \<not> (\<exists>d \<in> set (dependencies s). \<exists>t \<in> set (steps plan).
                 str_int (step_id t) = d \<and> status t \<noteq> ''completed'')"
  proof
    assume "get_next_step plan = Some s"
    with 1 have r: "ready_by_spec plan s" by blast
    show "\<not> (\<exists>d \<in> set (dependencies s). \<exists>t \<in> set (steps plan).
                 str_int (step_id t) = d \<and> status t \<noteq> ''completed'')"
    proof
      assume "\<exists>d \<in> set (dependencies s). \<exists>t \<in> set (steps plan).
                 str_int (step_id t) = d \<and> status t \<noteq> ''completed''"
      then obtain d t where dt: "d \<in> set (dependencies s)" "t \<in> set (steps plan)"
        "str_int (step_id t) = d" "status t \<noteq> ''completed''" by blast
      from r dt(1,2,3) obtain t' where t': "t' \<in> set (steps plan)" "str_int (step_id t') = d"
        "status t' = ''completed''" unfolding ready_by_spec_def by blast
      from find_dep_step_unique [OF assms dt(2,3)] find_dep_step_unique [OF assms t'(1,2)]
      have "t = t'" by simp
      with dt(4) t'(3) show False by simp
    qed
  qed
qed

theorem get_next_step_first_ready_witness:
  "get_next_step (two_steps ''completed'') = Some (new_TaskStep 2 ''save'' ''file'' 3 [''1''])
   \<and> get_next_step (two_steps ''failed'') = None
   \<and> get_next_step (two_steps ''pending'') = Some (new_TaskStep 1 ''write'' ''coder'' 3 [])"
proof -
  have d: "\<And>v. distinct (map step_id (steps (two_steps v)))"
    by (simp add: two_steps_def new_TaskStep_def)
  have s1: "str_int 1 = ''1''" and s2: "str_int 2 = ''2''"
    by (simp_all add: str_int_def str_nat.simps digit_char_def)
  have l: "\<And>v. length (steps (two_steps v)) = Suc (Suc 0)" by (simp add: two_steps_def)
  have n0: "\<And>v. steps (two_steps v) ! 0 = (new_TaskStep 1 ''write'' ''coder'' 3 [])\<lparr>status := v\<rparr>"
    and n1: "\<And>v. steps (two_steps v) ! Suc 0 = new_TaskStep 2 ''save'' ''file'' 3 [''1'']"
    by (simp_all add: two_steps_def)
  have r1: "\<And>v. ready_by_spec (two_steps v) ((new_TaskStep 1 ''write'' ''coder'' 3 [])\<lparr>status := v\<rparr>)
        \<longleftrightarrow> v = ''pending''"
    by (simp add: ready_by_spec_def new_TaskStep_def)
  have r2: "\<And>v. ready_by_spec (two_steps v) (new_TaskStep 2 ''save'' ''file'' 3 [''1''])
        \<longleftrightarrow> v = ''completed''"
    by (auto simp: ready_by_spec_def two_steps_def new_TaskStep_def s1 s2)
  have a: "get_next_step (two_steps ''completed'') = Some (new_TaskStep 2 ''save'' ''file'' 3 [''1''])"
  proof -
    have "\<exists>i < length (steps (two_steps ''completed'')).
            new_TaskStep 2 ''save'' ''file'' 3 [''1''] = steps (two_steps ''completed'') ! i
            \<and> ready_by_spec (two_steps ''completed'') (steps (two_steps ''completed'') ! i)
            \<and> (\<forall>j < i. \<not> ready_by_spec (two_steps ''completed'') (steps (two_steps ''completed'') ! j))"
      by (rule exI [of _ "Suc 0"]) (simp add: l n0 n1 r1 r2)
    then show ?thesis
      using get_next_step_first_ready [OF d, THEN conjunct1] by blast
  qed
  have b: "get_next_step (two_steps ''failed'') = None"
  proof -
    have "\<forall>i < length (steps (two_steps ''failed'')).
            \<not> ready_by_spec (two_steps ''failed'') (steps (two_steps ''failed'') ! i)"
      by (simp add: l less_Suc_eq n0 n1 r1 r2)
    then show ?thesis
      using get_next_step_first_ready [OF d, THEN conjunct2, THEN conjunct1] by blast
  qed
  have c: "get_next_step (two_steps ''pending'') = Some (new_TaskStep 1 ''write'' ''coder'' 3 [])"
  proof -
    have e: "(new_TaskStep 1 ''write'' ''coder'' 3 [])\<lparr>status := ''pending''\<rparr>
          = new_TaskStep 1 ''write'' ''coder'' 3 []"
      by (simp add: new_TaskStep_def)
    have "\<exists>i < length (steps (two_steps ''pending'')).
            new_TaskStep 1 ''write'' ''coder'' 3 [] = steps (two_steps ''pending'') ! i
            \<and> ready_by_spec (two_steps ''pending'') (steps (two_steps ''pending'') ! i)
            \<and> (\<forall>j < i. \<not> ready_by_spec (two_steps ''pending'') (steps (two_steps ''pending'') ! j))"
      using r1 [of "''pending''", unfolded e] by (intro exI [of _ 0]) (simp add: l n0 e)
    then show ?thesis
      using get_next_step_first_ready [OF d, THEN conjunct1] by blast
  qed
  show ?thesis using a b c by simp
qed

subsection \<open>Revising the plan\<close>

lemma lower_char_idem: "lower_char (lower_char c) = lower_char c"
proof -
  have b: "(of_char c :: nat) < 256" by simp
  show ?thesis
  proof (cases "(65 \<le> (of_char c :: nat) \<and> (of_char c :: nat) \<le> 90)
      \<or> (192 \<le> (of_char c :: nat) \<and> (of_char c :: nat) \<le> 214)
      \<or> (216 \<le> (of_char c :: nat) \<and> (of_char c :: nat) \<le> 222)")
    case True
    then have l: "lower_char c = char_of ((of_char c :: nat) + 32)"
      by (simp add: lower_char_def Let_def)
    from True have "((of_char c :: nat) + 32) mod 256 = of_char c + 32" by auto
    then have o: "(of_char (char_of ((of_char c :: nat) + 32)) :: nat) = of_char c + 32"
      by simp
    have "lower_char (char_of ((of_char c :: nat) + 32)) = char_of ((of_char c :: nat) + 32)"
      unfolding lower_char_def Let_def o using True by auto
    with l show ?thesis by simp
  next
    case False
    then have "lower_char c = c" unfolding lower_char_def Let_def by auto
    then show ?thesis by simp
  qed
qed

lemma lower_idem: "lower (lower s) = lower s"
  by (simp add: lower_def lower_char_idem)

lemma resolve_lower: "resolve_agent_key agents (lower a) = resolve_agent_key agents a"
  by (simp add: resolve_agent_key_def lower_idem)

lemma retry_step_fields:
  "agent_type (retry_step plan fs) = fst (recovery_choice fs)
   \<and> description (retry_step plan fs) = snd (recovery_choice fs) @ recovery_suffix fs
   \<and> dependencies (retry_step plan fs) = dependencies fs
   \<and> max_attempts (retry_step plan fs) = 2
   \<and> status (retry_step plan fs) = ''pending''
   \<and> attempts (retry_step plan fs) = 0
   \<and> step_id (retry_step plan fs) = int (length (steps plan)) + 1"
  by (simp add: retry_step_def new_TaskStep_def split: prod.splits)

lemma recovery_choice_agent:
  "fst (recovery_choice fs) =
     (if contains (lower (error fs)) ''no module named'' \<or> contains (lower (error fs)) ''import''
      then lower (agent_type fs)
      else if contains (lower (error fs)) ''permission''
              \<or> contains (lower (error fs)) ''access denied''
      then ''file''
      else if contains (lower (error fs)) ''syntax'' \<or> contains (lower (error fs)) ''syntaxerror''
      then ''coder''
      else if contains (lower (error fs)) ''timeout'' \<or> contains (lower (error fs)) ''connection''
      then ''web''
      else (case alternative_agents (lower (agent_type fs)) of
              Some a \<Rightarrow> a
            | None \<Rightarrow> agent_type fs))"
  by (simp add: recovery_choice_def Let_def)

text \<open>
  C9. \<open>revise_plan\<close> appends exactly one step to the plan. Its capability is picked by
  the first of these tests that the lower-cased error passes: \<open>no module named\<close> or
  \<open>import\<close> keeps the capability of the failed step (its key in lower case, which is the key
  \<open>execute_step\<close> resolves for the failed step too); \<open>permission\<close> or \<open>access denied\<close> gives
  \<open>file\<close>; \<open>syntax\<close> gives \<open>coder\<close>; \<open>timeout\<close> or \<open>connection\<close> gives \<open>web\<close>; anything else
  goes through the swap table (coder to file, file to coder, web to casual, casual to
  coder; a capability outside the table is kept). The new step has the dependencies of the
  failed step, \<open>max_attempts = 2\<close>, and a description that ends with the original error cut
  to 500 characters followed by the instruction to use a different approach.
\<close>

theorem revise_plan_appends_recovery:
  "revise_plan (Some plan) fs = Some (plan\<lparr>steps := steps plan @ [retry_step plan fs]\<rparr>)
   \<and> agent_type (retry_step plan fs) =
       (if contains (lower (error fs)) ''no module named'' \<or> contains (lower (error fs)) ''import''
        then lower (agent_type fs)
        else if contains (lower (error fs)) ''permission''
                \<or> contains (lower (error fs)) ''access denied''
        then ''file''
        else if contains (lower (error fs)) ''syntax'' \<or> contains (lower (error fs)) ''syntaxerror''
        then ''coder''
        else if contains (lower (error fs)) ''timeout'' \<or> contains (lower (error fs)) ''connection''
        then ''web''
        else (case alternative_agents (lower (agent_type fs)) of
                Some a \<Rightarrow> a
              | None \<Rightarrow> agent_type fs))
   \<and> resolve_agent_key agents (lower (agent_type fs)) = resolve_agent_key agents (agent_type fs)
   \<and> alternative_agents ''coder'' = Some ''file''
   \<and> alternative_agents ''file'' = Some ''coder''
   \<and> alternative_agents ''web'' = Some ''casual''
   \<and> alternative_agents ''casual'' = Some ''coder''
   \<and> dependencies (retry_step plan fs) = dependencies fs
   \<and> max_attempts (retry_step plan fs) = 2
   \<and> status (retry_step plan fs) = ''pending''
   \<and> attempts (retry_step plan fs) = 0
   \<and> step_id (retry_step plan fs) = int (length (steps plan)) + 1
   \<and> (\<exists>front. description (retry_step plan fs)
                 = front @ take 500 (error fs) @ recovery_instruction)
   \<and> description (retry_step plan fs)
       = snd (recovery_choice fs) @ [NL, NL] @ ''ERROR SEBELUMNYA:'' @ [NL]
         @ take 500 (if error fs = [] then ''Unknown error'' else error fs)
         @ recovery_instruction"
proof (intro conjI)
  show "revise_plan (Some plan) fs = Some (plan\<lparr>steps := steps plan @ [retry_step plan fs]\<rparr>)"
    by (simp add: revise_plan_def append_recovery_def)
  show "agent_type (retry_step plan fs) =
       (if contains (lower (error fs)) ''no module named'' \<or> contains (lower (error fs)) ''import''
        then lower (agent_type fs)
        else if contains (lower (error fs)) ''permission''
                \<or> contains (lower (error fs)) ''access denied''
        then ''file''
        else if contains (lower (error fs)) ''syntax'' \<or> contains (lower (error fs)) ''syntaxerror''
        then ''coder''
        else if contains (lower (error fs)) ''timeout'' \<or> contains (lower (error fs)) ''connection''
        then ''web''
        else (case alternative_agents (lower (agent_type fs)) of
                Some a \<Rightarrow> a
              | None \<Rightarrow> agent_type fs))"
    using retry_step_fields [of plan fs] recovery_choice_agent [of fs] by simp
  show "resolve_agent_key agents (lower (agent_type fs)) = resolve_agent_key agents (agent_type fs)"
    by (rule resolve_lower)
  show "alternative_agents ''coder'' = Some ''file''" by (simp add: alternative_agents_def)
  show "alternative_agents ''file'' = Some ''coder''" by (simp add: alternative_agents_def)
  show "alternative_agents ''web'' = Some ''casual''" by (simp add: alternative_agents_def)
  show "alternative_agents ''casual'' = Some ''coder''" by (simp add: alternative_agents_def)
  show "dependencies (retry_step plan fs) = dependencies fs"
    using retry_step_fields [of plan fs] by simp
  show "max_attempts (retry_step plan fs) = 2" using retry_step_fields [of plan fs] by simp
  show "status (retry_step plan fs) = ''pending''" using retry_step_fields [of plan fs] by simp
  show "attempts (retry_step plan fs) = 0" using retry_step_fields [of plan fs] by simp
  show "step_id (retry_step plan fs) = int (length (steps plan)) + 1"
    using retry_step_fields [of plan fs] by simp
  show d: "description (retry_step plan fs)
       = snd (recovery_choice fs) @ [NL, NL] @ ''ERROR SEBELUMNYA:'' @ [NL]
         @ take 500 (if error fs = [] then ''Unknown error'' else error fs)
         @ recovery_instruction"
    using retry_step_fields [of plan fs] by (simp add: recovery_suffix_def)
  show "\<exists>front. description (retry_step plan fs)
                 = front @ take 500 (error fs) @ recovery_instruction"
  proof (cases "error fs = []")
    case True
    have "description (retry_step plan fs)
        = (snd (recovery_choice fs) @ [NL, NL] @ ''ERROR SEBELUMNYA:'' @ [NL] @ ''Unknown error'')
          @ take 500 (error fs) @ recovery_instruction"
      unfolding d using True by simp
    then show ?thesis by (rule exI)
  next
    case False
    have "description (retry_step plan fs)
        = (snd (recovery_choice fs) @ [NL, NL] @ ''ERROR SEBELUMNYA:'' @ [NL])
          @ take 500 (error fs) @ recovery_instruction"
      unfolding d using False by simp
    then show ?thesis by (rule exI)
  qed
qed

theorem revise_plan_appends_recovery_witness:
  "map step_id (steps (the (revise_plan (Some plan_of_one) failed_import))) = [1, 2]
   \<and> agent_type (retry_step plan_of_one failed_import) = ''coder''
   \<and> dependencies (retry_step plan_of_one failed_import) = [''7'']
   \<and> max_attempts (retry_step plan_of_one failed_import) = 2"
proof -
  note T = revise_plan_appends_recovery [of plan_of_one failed_import "[]"]
  have c: "contains (lower (error failed_import)) ''no module named''" by code_simp
  have a: "lower (agent_type failed_import) = ''coder''" by code_simp
  have i: "step_id failed_import = 1" "dependencies failed_import = [''7'']"
    by (simp_all add: failed_import_def new_TaskStep_def)
  have s: "steps plan_of_one = [failed_import]" by (simp add: plan_of_one_def)
  have 1: "map step_id (steps (the (revise_plan (Some plan_of_one) failed_import))) = [1, 2]"
    using T [THEN conjunct1] T [THEN conjunct2, THEN conjunct2, THEN conjunct2, THEN conjunct2,
      THEN conjunct2, THEN conjunct2, THEN conjunct2, THEN conjunct2, THEN conjunct2,
      THEN conjunct2, THEN conjunct2, THEN conjunct1]
    by (simp add: s i)
  have 2: "agent_type (retry_step plan_of_one failed_import) = ''coder''"
    using T [THEN conjunct2, THEN conjunct1] c a by simp
  have 3: "dependencies (retry_step plan_of_one failed_import) = [''7'']"
    using T [THEN conjunct2, THEN conjunct2, THEN conjunct2, THEN conjunct2, THEN conjunct2,
      THEN conjunct2, THEN conjunct2, THEN conjunct1] i by simp
  have 4: "max_attempts (retry_step plan_of_one failed_import) = 2"
    using T [THEN conjunct2, THEN conjunct2, THEN conjunct2, THEN conjunct2, THEN conjunct2,
      THEN conjunct2, THEN conjunct2, THEN conjunct2, THEN conjunct1] by simp
  show ?thesis using 1 2 3 4 by simp
qed

section \<open>Properties of the loop\<close>

subsection \<open>The bound on the iterations\<close>

lemma run_step_iteration: "iteration (snd (run_step agents replies st i)) = Suc (iteration st)"
  by (simp add: run_step_def Let_def split: sum.splits prod.splits)

lemma run_step_executed:
  "executed (snd (run_step agents replies st i)) = executed st @ [step_id (steps (cur_plan st) ! i)]"
  by (simp add: run_step_def Let_def split: sum.splits prod.splits)

lemma run_while_bound:
  "iteration st \<le> m \<Longrightarrow> length (executed st) = iteration st \<Longrightarrow>
   iteration (snd (run_while agents replies m st)) \<le> m
   \<and> length (executed (snd (run_while agents replies m st)))
       = iteration (snd (run_while agents replies m st))"
proof (induction agents replies m st rule: run_while.induct)
  case (1 agents replies m st)
  show ?case
  proof (cases "\<not> is_complete (cur_plan st) \<and> iteration st < m")
    case False
    then have "run_while agents replies m st = (None, st)"
      by (subst run_while.simps) auto
    with "1.prems" show ?thesis by simp
  next
    case go: True
    show ?thesis
    proof (cases "next_step_index (cur_plan st)")
      case None
      with go have "run_while agents replies m st
                    = (None, st\<lparr>cur_plan := break_deadlock (cur_plan st)\<rparr>)"
        by (subst run_while.simps) simp
      with "1.prems" show ?thesis by simp
    next
      case (Some i)
      obtain e st' where r: "run_step agents replies st i = (e, st')"
        by (cases "run_step agents replies st i")
      have it: "iteration st' = Suc (iteration st)"
        using run_step_iteration [of agents replies st i] r by simp
      have ex: "length (executed st') = Suc (length (executed st))"
        using run_step_executed [of agents replies st i] r by simp
      show ?thesis
      proof (cases e)
        case None
        have eq: "run_while agents replies m st = run_while agents replies m st'"
          using go Some r None by (subst run_while.simps) simp
        have "iteration st' \<le> m" "length (executed st') = iteration st'"
          using it ex go "1.prems" by simp_all
        then show ?thesis
          using "1.IH" [OF go Some r [symmetric] None] eq by simp
      next
        case (Some err)
        have "run_while agents replies m st = (Some err, st')"
          using go \<open>next_step_index (cur_plan st) = Some i\<close> r Some
          by (subst run_while.simps) simp
        then show ?thesis using it ex go "1.prems" by simp
      qed
    qed
  qed
qed

lemma length_plan_steps_from: "length (plan_steps_from i tasks) = length tasks"
  by (induction i tasks rule: plan_steps_from.induct) simp_all

text \<open>
  C2. In every run of \<open>run_loop\<close>, whatever the handlers answer and however many recovery
  steps are appended to the plan, the body of the loop executes a step at most four times
  the number of tasks given, which is the number of steps of the initial plan; the counter
  \<open>iteration\<close> is the number of these executions.
\<close>

theorem run_loop_iteration_bound:
  "length (executed (snd (run_loop_state now agents replies g agent_tasks)))
     \<le> 4 * length (steps (create_plan_from_tasks now g agent_tasks))
   \<and> length (steps (create_plan_from_tasks now g agent_tasks)) = length agent_tasks
   \<and> iteration (snd (run_loop_state now agents replies g agent_tasks))
     = length (executed (snd (run_loop_state now agents replies g agent_tasks)))"
proof -
  let ?plan = "create_plan_from_tasks now g agent_tasks"
  have n: "length (steps ?plan) = length agent_tasks"
    by (simp add: create_plan_from_tasks_def length_plan_steps_from)
  have r: "run_loop_state now agents replies g agent_tasks
           = run_while agents replies (length (steps ?plan) * 4) (initial_state ?plan)"
    by (simp add: run_loop_state_def Let_def)
  have "iteration (initial_state ?plan) \<le> length (steps ?plan) * 4"
       "length (executed (initial_state ?plan)) = iteration (initial_state ?plan)"
    by (simp_all add: initial_state_def)
  from run_while_bound [OF this, of agents replies] show ?thesis
    unfolding r using n by (simp add: mult.commute)
qed

end
